theory Spec2Isabelle
  imports Main
begin

section \<open>Constants\<close>

text \<open>
  \<^verbatim>\<open>FreeMapSector\<close>, \<^verbatim>\<open>DirectorySector\<close> and \<^verbatim>\<open>NumDirEntries\<close> are defined in
  \<^verbatim>\<open>filesys.cc\<close>. The remaining constants come from headers that are not among the
  sources (\<^verbatim>\<open>disk.h\<close>, \<^verbatim>\<open>filehdr.h\<close>, \<^verbatim>\<open>directory.h\<close>, \<^verbatim>\<open>utility.h\<close>).

  Modelled from the spec: the missing constants. A sector is a fixed-size block, an
  Extent Map record occupies exactly one sector (two integers followed by the array of
  sector references), and the thresholds \<open>T1 < T2 < T3\<close> are governed by how many child
  records a single record can reference. The numeric values are the ones of the stock
  Nachos headers: 128-byte sectors, 1024 sectors, 4-byte integers, 20-byte directory
  entries.
\<close>

definition SectorSize :: int where
  "SectorSize = 128"

definition NumSectors :: nat where
  "NumSectors = 1024"

definition NumDirect :: nat where
  "NumDirect = 30"

definition MaxFileSize :: int where
  "MaxFileSize = int NumDirect * SectorSize"

definition MaxFileSize2 :: int where
  "MaxFileSize2 = int NumDirect * MaxFileSize"

definition MaxFileSize3 :: int where
  "MaxFileSize3 = int NumDirect * MaxFileSize2"

definition FreeMapSector :: int where
  "FreeMapSector = 0"

definition DirectorySector :: int where
  "DirectorySector = 1"

definition NumDirEntries :: nat where
  "NumDirEntries = 64"

definition FreeMapFileSize :: int where
  "FreeMapFileSize = int NumSectors div 8"

definition DirectoryFileSize :: int where
  "DirectoryFileSize = 20 * int NumDirEntries"

text \<open>
  Integer division of C truncates towards zero. \<^verbatim>\<open>divRoundDown(n,s)\<close> is \<^verbatim>\<open>n / s\<close> and
  \<^verbatim>\<open>divRoundUp(n,s)\<close> is \<^verbatim>\<open>n / s + (n % s > 0 ? 1 : 0)\<close>.
\<close>

definition c_div :: "int \<Rightarrow> int \<Rightarrow> int" where
  "c_div a b = sgn a * sgn b * (\<bar>a\<bar> div \<bar>b\<bar>)"

definition c_mod :: "int \<Rightarrow> int \<Rightarrow> int" where
  "c_mod a b = a - b * c_div a b"

definition divRoundDown :: "int \<Rightarrow> int \<Rightarrow> int" where
  "divRoundDown n s = c_div n s"

definition divRoundUp :: "int \<Rightarrow> int \<Rightarrow> int" where
  "divRoundUp n s = c_div n s + (if c_mod n s > 0 then 1 else 0)"

section \<open>Failures\<close>

text \<open>
  \<open>AssertionFailed\<close> is a failed \<^verbatim>\<open>ASSERT\<close>, which aborts the kernel. The next five are
  behaviours the C++ standard leaves undefined: the use of a variable that was
  never assigned (also as the operand of \<^verbatim>\<open>delete\<close>), the use of a null pointer, an
  array access outside the array, the end of a value-returning function reached without
  a \<^verbatim>\<open>return\<close>, and the \<^verbatim>\<open>delete\<close> of an object that has been deleted before.
  \<open>JunkData\<close> marks the places where the result depends on bytes whose layout is not
  tracked here (a sector read as a record of a kind that was not written to it).

  There is no heap: an object is a value, and a \<^verbatim>\<open>new\<close> always succeeds. A \<^verbatim>\<open>delete\<close>
  whose operand points to a live object whenever the statement is reached has no effect
  here and is left out. The others are part of the functions below:
  \<^verbatim>\<open>delete freeMap\<close> at the end of \<^verbatim>\<open>Create\<close>, \<^verbatim>\<open>delete newDir\<close> and
  \<^verbatim>\<open>delete openFileDir\<close> in \<^verbatim>\<open>CreateDir\<close>, and \<^verbatim>\<open>delete file\<close> in \<^verbatim>\<open>kclose\<close>, which
  follows a test of the same pointer.
\<close>

datatype error =
    AssertionFailed
  | UninitializedUse
  | NullPointer
  | IndexOutOfBounds
  | MissingReturn
  | DoubleDelete
  | JunkData

section \<open>Free-space bitmap\<close>

text \<open>
  Modelled from the spec: the bitmap class (\<^verbatim>\<open>bitmap.cc\<close>, \<^verbatim>\<open>pbitmap.cc\<close> are not
  among the sources). A bit vector, \<open>True\<close> for an allocated sector; \<open>Mark\<close>, \<open>Clear\<close>
  and \<open>Test\<close> check the range of their argument; \<open>FindAndSet\<close> scans for the
  lowest-indexed clear bit, sets it and returns it, or returns \<open>-1\<close> when the bitmap is
  full; \<open>NumClear\<close> counts the clear bits.
\<close>

type_synonym Bitmap = "bool list"

definition Test :: "Bitmap \<Rightarrow> int \<Rightarrow> error + bool" where
  "Test bm which =
     (if 0 \<le> which \<and> which < int (length bm) then Inr (bm ! nat which)
      else Inl AssertionFailed)"

definition Mark :: "Bitmap \<Rightarrow> int \<Rightarrow> error + Bitmap" where
  "Mark bm which =
     (if 0 \<le> which \<and> which < int (length bm) then Inr (bm[nat which := True])
      else Inl AssertionFailed)"

definition Clear :: "Bitmap \<Rightarrow> int \<Rightarrow> error + Bitmap" where
  "Clear bm which =
     (if 0 \<le> which \<and> which < int (length bm) then Inr (bm[nat which := False])
      else Inl AssertionFailed)"

definition NumClear :: "Bitmap \<Rightarrow> int" where
  "NumClear bm = int (length (filter (\<lambda>b. \<not> b) bm))"

fun first_clear :: "bool list \<Rightarrow> nat option" where
  "first_clear [] = None"
| "first_clear (b # bs) = (if b then map_option Suc (first_clear bs) else Some 0)"

definition FindAndSet :: "Bitmap \<Rightarrow> int \<times> Bitmap" where
  "FindAndSet bm =
     (case first_clear bm of
        None \<Rightarrow> (- 1, bm)
      | Some i \<Rightarrow> (int i, bm[i := True]))"

section \<open>File headers, directories and the disk\<close>

record FileHeader =
  numBytes :: int
  numSectors :: int
  dataSectors :: "int list"

text \<open>The constructor: every field is \<open>-1\<close>.\<close>

definition new_FileHeader :: FileHeader where
  "new_FileHeader =
     \<lparr>numBytes = - 1, numSectors = - 1, dataSectors = replicate NumDirect (- 1)\<rparr>"

text \<open>
  Modelled from the spec: the directory table (\<^verbatim>\<open>directory.cc\<close> is not among the
  sources): a fixed-capacity ordered table of entries, each with an in-use flag, a name,
  the sector of the entry's file header and a directory flag.
\<close>

record DirectoryEntry =
  inUse :: bool
  isDir :: bool
  sector :: int
  name :: string

type_synonym Directory = "DirectoryEntry list"

text \<open>
  The disk holds one value per sector: the image of a file header, the \<open>k\<close>-th
  sector-sized piece of the serialised image of a directory table or of a bitmap, or
  bytes that are not tracked.
\<close>

datatype blob = TableImage Directory | BitsImage Bitmap

datatype sector_data =
    HeaderData FileHeader
  | Piece blob nat
  | Untracked

type_synonym Disk = "int \<Rightarrow> sector_data"

text \<open>
  Modelled from the spec: the block store (\<^verbatim>\<open>synchdisk.cc\<close> is not among the sources):
  synchronous read and write of one sector, indices in \<open>[0, NumSectors)\<close>.

  An operation that writes returns its result together with the disk as it is when the
  operation ends, also when it ends in a failure.
\<close>

type_synonym 'a io = "(error + 'a) \<times> Disk"

definition ReadSector :: "Disk \<Rightarrow> int \<Rightarrow> error + sector_data" where
  "ReadSector d s =
     (if 0 \<le> s \<and> s < int NumSectors then Inr (d s) else Inl AssertionFailed)"

definition WriteSector :: "Disk \<Rightarrow> int \<Rightarrow> sector_data \<Rightarrow> unit io" where
  "WriteSector d s v =
     (if 0 \<le> s \<and> s < int NumSectors then (Inr (), d(s := v))
      else (Inl AssertionFailed, d))"

text \<open>\<^verbatim>\<open>FileHeader::FetchFrom\<close> and \<^verbatim>\<open>FileHeader::WriteBack\<close>.\<close>

definition FetchFrom :: "Disk \<Rightarrow> int \<Rightarrow> error + FileHeader" where
  "FetchFrom d s =
     (case ReadSector d s of
        Inl e \<Rightarrow> Inl e
      | Inr (HeaderData h) \<Rightarrow> Inr h
      | Inr _ \<Rightarrow> Inl JunkData)"

definition WriteBack :: "FileHeader \<Rightarrow> Disk \<Rightarrow> int \<Rightarrow> unit io" where
  "WriteBack h d s = WriteSector d s (HeaderData h)"

text \<open>A read of the array \<^verbatim>\<open>dataSectors\<close>.\<close>

definition array_get :: "int list \<Rightarrow> int \<Rightarrow> error + int" where
  "array_get xs i =
     (if 0 \<le> i \<and> i < int (length xs) then Inr (xs ! nat i) else Inl IndexOutOfBounds)"

section \<open>\<^verbatim>\<open>FileHeader::Allocate\<close>\<close>

text \<open>
  The three \<^verbatim>\<open>while\<close> loops of \<^verbatim>\<open>Allocate\<close> differ only in the threshold they use; the
  level selects it. The array \<^verbatim>\<open>dataSectors\<close> has \<open>NumDirect\<close> elements, and a store
  outside it is \<open>IndexOutOfBounds\<close>.
\<close>

datatype level = Single | Double | Triple

fun threshold :: "level \<Rightarrow> int" where
  "threshold Single = MaxFileSize"
| "threshold Double = MaxFileSize2"
| "threshold Triple = MaxFileSize3"

text \<open>The \<^verbatim>\<open>for\<close> loop of the direct case; the second argument counts the iterations left.\<close>

fun Allocate_for :: "nat \<Rightarrow> nat \<Rightarrow> FileHeader \<Rightarrow> Bitmap \<Rightarrow> error + FileHeader \<times> Bitmap" where
  "Allocate_for i 0 h freeMap = Inr (h, freeMap)"
| "Allocate_for i (Suc n) h freeMap =
     (case FindAndSet freeMap of (s, m1) \<Rightarrow>
        if length (dataSectors h) \<le> i then Inl IndexOutOfBounds
        else if s < 0 then Inl AssertionFailed
        else Allocate_for (Suc i) n (h\<lparr>dataSectors := (dataSectors h)[i := s]\<rparr>) m1)"

function
  Allocate :: "FileHeader \<Rightarrow> Bitmap \<Rightarrow> Disk \<Rightarrow> int \<Rightarrow> (bool \<times> FileHeader \<times> Bitmap) io"
and
  Allocate_while :: "level \<Rightarrow> nat \<Rightarrow> int \<Rightarrow> FileHeader \<Rightarrow> Bitmap \<Rightarrow> Disk
     \<Rightarrow> (FileHeader \<times> Bitmap) io"
where
  "Allocate h freeMap d fileSize =
     (let h1 = h\<lparr>numBytes := fileSize, numSectors := divRoundUp fileSize SectorSize\<rparr> in
      if NumClear freeMap < numSectors h1 then (Inr (False, h1, freeMap), d)
      else if fileSize > MaxFileSize3 then
        (case Allocate_while Triple 0 fileSize h1 freeMap d of
           (Inl e, d2) \<Rightarrow> (Inl e, d2)
         | (Inr (h2, m2), d2) \<Rightarrow> (Inr (True, h2, m2), d2))
      else if fileSize > MaxFileSize2 then
        (case Allocate_while Double 0 fileSize h1 freeMap d of
           (Inl e, d2) \<Rightarrow> (Inl e, d2)
         | (Inr (h2, m2), d2) \<Rightarrow> (Inr (True, h2, m2), d2))
      else if fileSize > MaxFileSize then
        (case Allocate_while Single 0 fileSize h1 freeMap d of
           (Inl e, d2) \<Rightarrow> (Inl e, d2)
         | (Inr (h2, m2), d2) \<Rightarrow> (Inr (True, h2, m2), d2))
      else
        (case Allocate_for 0 (nat (numSectors h1)) h1 freeMap of
           Inl e \<Rightarrow> (Inl e, d)
         | Inr (h2, m2) \<Rightarrow> (Inr (True, h2, m2), d)))"
| "Allocate_while lv i fileSize h freeMap d =
     (if fileSize > 0 then
        (case FindAndSet freeMap of (s, m1) \<Rightarrow>
           if length (dataSectors h) \<le> i then (Inl IndexOutOfBounds, d)
           else if s < 0 then (Inl AssertionFailed, d)
           else
             (case Allocate new_FileHeader m1 d
                     (if fileSize > threshold lv then threshold lv else fileSize) of
                (Inl e, d2) \<Rightarrow> (Inl e, d2)
              | (Inr (ok, next, m2), d2) \<Rightarrow>
                  if \<not> ok then (Inl AssertionFailed, d2)
                  else
                    (case WriteBack next d2 s of
                       (Inl e, d3) \<Rightarrow> (Inl e, d3)
                     | (Inr u, d3) \<Rightarrow>
                         Allocate_while lv (Suc i) (fileSize - threshold lv)
                           (h\<lparr>dataSectors := (dataSectors h)[i := s]\<rparr>) m2 d3)))
      else (Inr (h, freeMap), d))"
  by pat_completeness auto

termination
proof (relation "(\<lambda>x. case x of
            Inl (h, m, d, sz) \<Rightarrow> 2 * nat sz + 1
          | Inr (lv, i, sz, h, m, d) \<Rightarrow> 2 * nat (threshold lv) + 2)
        <*mlex*>
        measure (\<lambda>x. case x of
            Inl (h, m, d, sz) \<Rightarrow> 0
          | Inr (lv, i, sz, h, m, d) \<Rightarrow> nat sz)", goal_cases)
  case 1
  show ?case by (simp add: wf_mlex)
next
  case (2 h freeMap d fileSize x)
  have "0 < MaxFileSize3"
    by (simp add: MaxFileSize_def MaxFileSize2_def MaxFileSize3_def NumDirect_def SectorSize_def)
  with 2 show ?case by (auto intro!: mlex_less)
next
  case (3 h freeMap d fileSize x)
  have "0 < MaxFileSize2"
    by (simp add: MaxFileSize_def MaxFileSize2_def NumDirect_def SectorSize_def)
  with 3 show ?case by (auto intro!: mlex_less)
next
  case (4 h freeMap d fileSize x)
  have "0 < MaxFileSize"
    by (simp add: MaxFileSize_def NumDirect_def SectorSize_def)
  with 4 show ?case by (auto intro!: mlex_less)
next
  case (5 lv i fileSize h freeMap d)
  have "0 < threshold lv"
    by (cases lv) (simp_all add: MaxFileSize_def MaxFileSize2_def MaxFileSize3_def
        NumDirect_def SectorSize_def)
  with 5 show ?case by (auto intro!: mlex_less)
next
  case (6 lv i fileSize h freeMap d)
  have "0 < threshold lv"
    by (cases lv) (simp_all add: MaxFileSize_def MaxFileSize2_def MaxFileSize3_def
        NumDirect_def SectorSize_def)
  with 6 show ?case by (auto intro!: mlex_leq)
qed

section \<open>\<^verbatim>\<open>FileHeader::Deallocate\<close>\<close>

text \<open>
  The loop runs over \<open>i < numSectors\<close>, asserts that \<^verbatim>\<open>dataSectors[i]\<close> is marked and
  clears it. It does not look at \<^verbatim>\<open>numBytes\<close> and fetches no child header.
\<close>

fun Deallocate_for :: "nat \<Rightarrow> nat \<Rightarrow> FileHeader \<Rightarrow> Bitmap \<Rightarrow> error + Bitmap" where
  "Deallocate_for i 0 h freeMap = Inr freeMap"
| "Deallocate_for i (Suc n) h freeMap =
     (case array_get (dataSectors h) (int i) of
        Inl e \<Rightarrow> Inl e
      | Inr s \<Rightarrow>
          (case Test freeMap s of
             Inl e \<Rightarrow> Inl e
           | Inr marked \<Rightarrow>
               if \<not> marked then Inl AssertionFailed
               else
                 (case Clear freeMap s of
                    Inl e \<Rightarrow> Inl e
                  | Inr m1 \<Rightarrow> Deallocate_for (Suc i) n h m1)))"

definition Deallocate :: "FileHeader \<Rightarrow> Bitmap \<Rightarrow> error + Bitmap" where
  "Deallocate h freeMap = Deallocate_for 0 (nat (numSectors h)) h freeMap"

section \<open>\<^verbatim>\<open>FileHeader::ByteToSector\<close>\<close>

text \<open>
  In the three indirect branches the source fetches the child header and calls
  \<^verbatim>\<open>ByteToSector\<close> on it, but the statement is not a \<^verbatim>\<open>return\<close>: when the call comes back,
  control reaches the end of the function. Only the last branch returns a value. The
  recursion follows headers read from the disk, so it need not end; \<open>None\<close> is the
  call that does not return.
\<close>

definition child_header :: "Disk \<Rightarrow> FileHeader \<Rightarrow> int \<Rightarrow> error + FileHeader" where
  "child_header d h which =
     (case array_get (dataSectors h) which of
        Inl e \<Rightarrow> Inl e
      | Inr s \<Rightarrow> FetchFrom d s)"

definition falls_off_end :: "error + int \<Rightarrow> (error + int) option" where
  "falls_off_end r = (case r of Inl e \<Rightarrow> Some (Inl e) | Inr s \<Rightarrow> Some (Inl MissingReturn))"

partial_function (option) ByteToSector :: "Disk \<Rightarrow> FileHeader \<Rightarrow> int \<Rightarrow> (error + int) option" where
  "ByteToSector d h offset =
     (let NumSector = c_div offset SectorSize in
      if numBytes h > MaxFileSize3 then
        (let which = divRoundDown offset MaxFileSize3 in
         case child_header d h which of
           Inl e \<Rightarrow> Some (Inl e)
         | Inr next \<Rightarrow>
             Option.bind (ByteToSector d next (offset - which * MaxFileSize3)) falls_off_end)
      else if numBytes h > MaxFileSize2 then
        (let which = divRoundDown offset MaxFileSize2 in
         case child_header d h which of
           Inl e \<Rightarrow> Some (Inl e)
         | Inr next \<Rightarrow>
             Option.bind (ByteToSector d next (offset - which * MaxFileSize2)) falls_off_end)
      else if numBytes h > MaxFileSize then
        (let which = divRoundDown offset MaxFileSize in
         case child_header d h which of
           Inl e \<Rightarrow> Some (Inl e)
         | Inr next \<Rightarrow>
             Option.bind (ByteToSector d next (offset - which * MaxFileSize)) falls_off_end)
      else Some (array_get (dataSectors h) NumSector))"

section \<open>Directory tables\<close>

text \<open>
  Modelled from the spec: the operations of the directory table (\<^verbatim>\<open>directory.cc\<close> is not
  among the sources). \<open>Find\<close> is a linear scan for an in-use entry with a matching name
  and returns the entry's sector, or \<open>-1\<close>. \<open>Add\<close> fails if the name is present or no
  slot is free, and otherwise occupies the first free slot; \<open>AddDir\<close> is \<open>Add\<close> for an
  entry of kind directory. \<open>Remove\<close> clears the matching in-use entry and fails if there
  is none. A new table has no entry in use.
\<close>

definition new_Directory :: "nat \<Rightarrow> Directory" where
  "new_Directory n =
     replicate n \<lparr>inUse = False, isDir = False, sector = 0, name = []\<rparr>"

fun FindIndex :: "Directory \<Rightarrow> string \<Rightarrow> nat option" where
  "FindIndex [] n = None"
| "FindIndex (e # es) n =
     (if inUse e \<and> name e = n then Some 0 else map_option Suc (FindIndex es n))"

definition Find :: "Directory \<Rightarrow> string \<Rightarrow> int" where
  "Find t n = (case FindIndex t n of None \<Rightarrow> - 1 | Some i \<Rightarrow> sector (t ! i))"

fun free_slot :: "Directory \<Rightarrow> nat option" where
  "free_slot [] = None"
| "free_slot (e # es) = (if inUse e then map_option Suc (free_slot es) else Some 0)"

definition add_entry :: "bool \<Rightarrow> Directory \<Rightarrow> string \<Rightarrow> int \<Rightarrow> bool \<times> Directory" where
  "add_entry kind t n s =
     (if FindIndex t n \<noteq> None then (False, t)
      else
        (case free_slot t of
           None \<Rightarrow> (False, t)
         | Some i \<Rightarrow> (True, t[i := \<lparr>inUse = True, isDir = kind, sector = s, name = n\<rparr>])))"

definition Add :: "Directory \<Rightarrow> string \<Rightarrow> int \<Rightarrow> bool \<times> Directory" where
  "Add = add_entry False"

definition AddDir :: "Directory \<Rightarrow> string \<Rightarrow> int \<Rightarrow> bool \<times> Directory" where
  "AddDir = add_entry True"

definition Remove_entry :: "Directory \<Rightarrow> string \<Rightarrow> bool \<times> Directory" where
  "Remove_entry t n =
     (case FindIndex t n of
        None \<Rightarrow> (False, t)
      | Some i \<Rightarrow> (True, t[i := (t ! i)\<lparr>inUse := False\<rparr>]))"

text \<open>The in-use entries, in table order, each with its kind (\<^verbatim>\<open>Directory::List\<close>).\<close>

definition Directory_List :: "Directory \<Rightarrow> (string \<times> bool) list" where
  "Directory_List t = map (\<lambda>e. (name e, isDir e)) (filter inUse t)"

section \<open>Open files\<close>

text \<open>
  Modelled from the spec: the open-file handle (\<^verbatim>\<open>openfile.cc\<close> is not among the
  sources): a file handle backed by the Extent Map that its constructor fetches from
  the given sector. A byte-range transfer of \<open>len\<close> bytes at position 0 is cut to the
  length of the file and touches the sectors \<^verbatim>\<open>ByteToSector(k * SectorSize)\<close> of the
  handle's header, one after the other.

  \<open>sector_of\<close> is what such a call of \<^verbatim>\<open>ByteToSector\<close> gives without reading the disk:
  the array element for a header within the direct span (lemma \<open>ByteToSector_direct\<close>
  below), and no value for a header above it.
\<close>

datatype OpenFile = OpenFile (hdr: FileHeader)

definition new_OpenFile :: "Disk \<Rightarrow> int \<Rightarrow> error + OpenFile" where
  "new_OpenFile d s = (case FetchFrom d s of Inl e \<Rightarrow> Inl e | Inr h \<Rightarrow> Inr (OpenFile h))"

definition sector_of :: "FileHeader \<Rightarrow> int \<Rightarrow> error + int" where
  "sector_of h offset =
     (if numBytes h > MaxFileSize then Inl MissingReturn
      else array_get (dataSectors h) (c_div offset SectorSize))"

definition transfer_span :: "FileHeader \<Rightarrow> int \<Rightarrow> nat" where
  "transfer_span h len =
     (if len \<le> 0 \<or> numBytes h \<le> 0 then 0
      else nat (c_div (min len (numBytes h) - 1) SectorSize) + 1)"

fun read_pieces :: "Disk \<Rightarrow> FileHeader \<Rightarrow> nat list \<Rightarrow> error + sector_data list" where
  "read_pieces d h [] = Inr []"
| "read_pieces d h (k # ks) =
     (case sector_of h (int k * SectorSize) of
        Inl e \<Rightarrow> Inl e
      | Inr s \<Rightarrow>
          (case ReadSector d s of
             Inl e \<Rightarrow> Inl e
           | Inr v \<Rightarrow>
               (case read_pieces d h ks of
                  Inl e \<Rightarrow> Inl e
                | Inr vs \<Rightarrow> Inr (v # vs))))"

fun write_pieces :: "Disk \<Rightarrow> FileHeader \<Rightarrow> (nat \<Rightarrow> sector_data) \<Rightarrow> nat list \<Rightarrow> unit io" where
  "write_pieces d h img [] = (Inr (), d)"
| "write_pieces d h img (k # ks) =
     (case sector_of h (int k * SectorSize) of
        Inl e \<Rightarrow> (Inl e, d)
      | Inr s \<Rightarrow>
          (case WriteSector d s (img k) of
             (Inl e, d1) \<Rightarrow> (Inl e, d1)
           | (Inr u, d1) \<Rightarrow> write_pieces d1 h img ks))"

text \<open>
  The sectors read form the image of a table or bitmap only if they are its pieces, in
  order. Anything else (a file shorter than the image, sectors written as something
  else) gives bytes that are not tracked: \<open>None\<close>.
\<close>

definition assemble :: "sector_data list \<Rightarrow> blob option" where
  "assemble vs =
     (case vs of
        Piece b 0 # rest \<Rightarrow> if vs = map (Piece b) [0..<length vs] then Some b else None
      | _ \<Rightarrow> None)"

definition ReadAt :: "Disk \<Rightarrow> OpenFile \<Rightarrow> int \<Rightarrow> error + blob option" where
  "ReadAt d f len =
     (case read_pieces d (hdr f) [0..<transfer_span (hdr f) len] of
        Inl e \<Rightarrow> Inl e
      | Inr vs \<Rightarrow> Inr (if numBytes (hdr f) < len then None else assemble vs))"

definition WriteAt :: "Disk \<Rightarrow> OpenFile \<Rightarrow> blob option \<Rightarrow> int \<Rightarrow> unit io" where
  "WriteAt d f img len =
     write_pieces d (hdr f)
       (\<lambda>k. if numBytes (hdr f) < len then Untracked
            else (case img of None \<Rightarrow> Untracked | Some b \<Rightarrow> Piece b k))
       [0..<transfer_span (hdr f) len]"

text \<open>
  \<^verbatim>\<open>Directory::FetchFrom\<close>, \<^verbatim>\<open>Directory::WriteBack\<close> and their bitmap counterparts. A
  table in memory is \<open>None\<close> when it was filled from bytes that are not tracked.
\<close>

definition Directory_FetchFrom :: "Disk \<Rightarrow> OpenFile \<Rightarrow> error + Directory option" where
  "Directory_FetchFrom d f =
     (case ReadAt d f DirectoryFileSize of
        Inl e \<Rightarrow> Inl e
      | Inr (Some (TableImage t)) \<Rightarrow> Inr (Some t)
      | Inr _ \<Rightarrow> Inr None)"

definition Directory_WriteBack :: "Disk \<Rightarrow> OpenFile \<Rightarrow> Directory option \<Rightarrow> unit io" where
  "Directory_WriteBack d f t = WriteAt d f (map_option TableImage t) DirectoryFileSize"

definition Bitmap_FetchFrom :: "Disk \<Rightarrow> OpenFile \<Rightarrow> error + Bitmap" where
  "Bitmap_FetchFrom d f =
     (case ReadAt d f FreeMapFileSize of
        Inl e \<Rightarrow> Inl e
      | Inr (Some (BitsImage m)) \<Rightarrow> Inr m
      | Inr _ \<Rightarrow> Inl JunkData)"

definition Bitmap_WriteBack :: "Disk \<Rightarrow> OpenFile \<Rightarrow> Bitmap \<Rightarrow> unit io" where
  "Bitmap_WriteBack d f m = WriteAt d f (Some (BitsImage m)) FreeMapFileSize"

section \<open>The file system\<close>

text \<open>
  A local pointer variable of the source is unassigned, null, or points to an object.
\<close>

datatype 'a pointer = Uninitialized | Null | Pointer 'a

definition deref :: "'a pointer \<Rightarrow> error + 'a" where
  "deref p =
     (case p of
        Uninitialized \<Rightarrow> Inl UninitializedUse
      | Null \<Rightarrow> Inl NullPointer
      | Pointer x \<Rightarrow> Inr x)"

text \<open>
  \<^verbatim>\<open>delete p\<close> for a variable whose object, if it has one, is live: nothing happens for
  a null pointer, and the value of a variable that was never assigned must not be used.
\<close>

definition delete_pointer :: "'a pointer \<Rightarrow> error + unit" where
  "delete_pointer p =
     (case p of
        Uninitialized \<Rightarrow> Inl UninitializedUse
      | Null \<Rightarrow> Inr ()
      | Pointer x \<Rightarrow> Inr ())"

text \<open>
  Modelled from the spec: the members of the file system object (\<^verbatim>\<open>filesys.h\<close> is not
  among the sources): the two permanently open handles and the table from small integer
  ids to open files. The declared length of the table is not known; it is indexed here
  by every integer.
\<close>

record FileSystem =
  disk :: Disk
  freeMapFile :: OpenFile
  directoryFile :: OpenFile
  OpenTable :: "int \<Rightarrow> OpenFile pointer"

text \<open>
  The successive results of \<^verbatim>\<open>strtok(name, "/")\<close>, \<^verbatim>\<open>strtok(NULL, "/")\<close>, ...: the
  maximal runs of characters other than the separator.
\<close>

fun tokens_from :: "string \<Rightarrow> string \<Rightarrow> string list" where
  "tokens_from acc [] = (if acc = [] then [] else [acc])"
| "tokens_from acc (c # cs) =
     (if c = CHR ''/'' then
        (if acc = [] then tokens_from [] cs else acc # tokens_from [] cs)
      else tokens_from (acc @ [c]) cs)"

definition strtok :: "string \<Rightarrow> string list" where
  "strtok path = tokens_from [] path"

subsection \<open>The constructor\<close>

text \<open>
  \<^verbatim>\<open>FileSystem::FileSystem(format)\<close>. It assigns the two handles and leaves the table of
  open files as it finds it.
\<close>

definition format_disk :: "Disk \<Rightarrow> (OpenFile \<times> OpenFile) io" where
  "format_disk d =
     (case Mark (replicate NumSectors False) FreeMapSector of
        Inl e \<Rightarrow> (Inl e, d)
      | Inr m0 \<Rightarrow>
     (case Mark m0 DirectorySector of
        Inl e \<Rightarrow> (Inl e, d)
      | Inr m1 \<Rightarrow>
     (case Allocate new_FileHeader m1 d FreeMapFileSize of
        (Inl e, d1) \<Rightarrow> (Inl e, d1)
      | (Inr (ok1, mapHdr, m2), d1) \<Rightarrow>
          if \<not> ok1 then (Inl AssertionFailed, d1)
          else
     (case Allocate new_FileHeader m2 d1 DirectoryFileSize of
        (Inl e, d2) \<Rightarrow> (Inl e, d2)
      | (Inr (ok2, dirHdr, m3), d2) \<Rightarrow>
          if \<not> ok2 then (Inl AssertionFailed, d2)
          else
     (case WriteBack mapHdr d2 FreeMapSector of
        (Inl e, d3) \<Rightarrow> (Inl e, d3)
      | (Inr u, d3) \<Rightarrow>
     (case WriteBack dirHdr d3 DirectorySector of
        (Inl e, d4) \<Rightarrow> (Inl e, d4)
      | (Inr u, d4) \<Rightarrow>
     (case new_OpenFile d4 FreeMapSector of
        Inl e \<Rightarrow> (Inl e, d4)
      | Inr mapFile \<Rightarrow>
     (case new_OpenFile d4 DirectorySector of
        Inl e \<Rightarrow> (Inl e, d4)
      | Inr dirFile \<Rightarrow>
     (case Bitmap_WriteBack d4 mapFile m3 of
        (Inl e, d5) \<Rightarrow> (Inl e, d5)
      | (Inr u, d5) \<Rightarrow>
     (case Directory_WriteBack d5 dirFile (Some (new_Directory NumDirEntries)) of
        (Inl e, d6) \<Rightarrow> (Inl e, d6)
      | (Inr u, d6) \<Rightarrow> (Inr (mapFile, dirFile), d6)))))))))))"

definition new_FileSystem :: "bool \<Rightarrow> Disk \<Rightarrow> (int \<Rightarrow> OpenFile pointer) \<Rightarrow> error + FileSystem" where
  "new_FileSystem format d tbl =
     (if format then
        (case format_disk d of
           (Inl e, d1) \<Rightarrow> Inl e
         | (Inr (mapFile, dirFile), d1) \<Rightarrow>
             Inr \<lparr>disk = d1, freeMapFile = mapFile, directoryFile = dirFile, OpenTable = tbl\<rparr>)
      else
        (case new_OpenFile d FreeMapSector of
           Inl e \<Rightarrow> Inl e
         | Inr mapFile \<Rightarrow>
             (case new_OpenFile d DirectorySector of
                Inl e \<Rightarrow> Inl e
              | Inr dirFile \<Rightarrow>
                  Inr \<lparr>disk = d, freeMapFile = mapFile, directoryFile = dirFile,
                       OpenTable = tbl\<rparr>)))"

subsection \<open>\<^verbatim>\<open>FileSystem::Create\<close>\<close>

text \<open>
  The file the directory is written to: \<^verbatim>\<open>directoryFile\<close> in the first iteration,
  \<^verbatim>\<open>openFileDir\<close> in the later ones.
\<close>

definition dir_file :: "FileSystem \<Rightarrow> nat \<Rightarrow> OpenFile pointer \<Rightarrow> error + OpenFile" where
  "dir_file fs count openFileDir =
     (if count = 0 then Inr (directoryFile fs) else deref openFileDir)"

text \<open>The three writes of the innermost branch.\<close>

definition Create_flush ::
  "FileSystem \<Rightarrow> nat \<Rightarrow> OpenFile pointer \<Rightarrow> FileHeader \<Rightarrow> int \<Rightarrow> Directory \<Rightarrow> Bitmap
     \<Rightarrow> Disk \<Rightarrow> unit io" where
  "Create_flush fs count openFileDir h s t freeMap d =
     (case WriteBack h d s of
        (Inl e, d1) \<Rightarrow> (Inl e, d1)
      | (Inr u, d1) \<Rightarrow>
          (case dir_file fs count openFileDir of
             Inl e \<Rightarrow> (Inl e, d1)
           | Inr f \<Rightarrow>
               (case Directory_WriteBack d1 f (Some t) of
                  (Inl e, d2) \<Rightarrow> (Inl e, d2)
                | (Inr u, d2) \<Rightarrow> Bitmap_WriteBack d2 (freeMapFile fs) freeMap)))"

text \<open>
  One iteration of the \<^verbatim>\<open>while\<close> loop, up to the call of \<^verbatim>\<open>strtok\<close>: the values of
  \<^verbatim>\<open>success\<close>, \<^verbatim>\<open>directory\<close>, \<^verbatim>\<open>openFileDir\<close> and \<^verbatim>\<open>freeMap\<close> after it. The variable
  \<^verbatim>\<open>freeMap\<close> is assigned only in the branch of a component that is not found; it then
  points to the bitmap object, which \<^verbatim>\<open>FindAndSet\<close> and \<^verbatim>\<open>Allocate\<close> update.
\<close>

definition Create_body ::
  "FileSystem \<Rightarrow> int \<Rightarrow> nat \<Rightarrow> string \<Rightarrow> Directory option \<Rightarrow> OpenFile pointer
     \<Rightarrow> Bitmap pointer \<Rightarrow> Disk
     \<Rightarrow> (bool \<times> Directory option \<times> OpenFile pointer \<times> Bitmap pointer) io" where
  "Create_body fs initialSize count pch directory openFileDir freeMap d =
     (case directory of
        None \<Rightarrow> (Inl JunkData, d)
      | Some t \<Rightarrow>
          if Find t pch \<noteq> - 1 then
            (case new_OpenFile d (Find t pch) of
               Inl e \<Rightarrow> (Inl e, d)
             | Inr f \<Rightarrow>
                 (case Directory_FetchFrom d f of
                    Inl e \<Rightarrow> (Inl e, d)
                  | Inr directory1 \<Rightarrow> (Inr (False, directory1, Pointer f, freeMap), d)))
          else
            (case Bitmap_FetchFrom d (freeMapFile fs) of
               Inl e \<Rightarrow> (Inl e, d)
             | Inr m0 \<Rightarrow>
                 (case FindAndSet m0 of (s, m1) \<Rightarrow>
                    if s = - 1 then (Inr (False, Some t, openFileDir, Pointer m1), d)
                    else
                      (case Add t pch s of (added, t1) \<Rightarrow>
                         if \<not> added then (Inr (False, Some t1, openFileDir, Pointer m1), d)
                         else
                           (case Allocate new_FileHeader m1 d initialSize of
                              (Inl e, d1) \<Rightarrow> (Inl e, d1)
                            | (Inr (ok, h, m2), d1) \<Rightarrow>
                                if \<not> ok then (Inr (False, Some t1, openFileDir, Pointer m2), d1)
                                else
                                  (case Create_flush fs count openFileDir h s t1 m2 d1 of
                                     (Inl e, d2) \<Rightarrow> (Inl e, d2)
                                   | (Inr u, d2) \<Rightarrow>
                                       (Inr (True, Some t1, openFileDir, Pointer m2), d2)))))))"

text \<open>
  The loop, and the two statements between it and the \<^verbatim>\<open>return\<close>: \<^verbatim>\<open>delete directory\<close>,
  whose operand was assigned before the loop, and \<^verbatim>\<open>delete freeMap\<close>.
\<close>

fun Create_while ::
  "FileSystem \<Rightarrow> int \<Rightarrow> nat \<Rightarrow> string \<Rightarrow> string list \<Rightarrow> Directory option
     \<Rightarrow> OpenFile pointer \<Rightarrow> Bitmap pointer \<Rightarrow> Disk \<Rightarrow> bool io" where
  "Create_while fs initialSize count pch [] directory openFileDir freeMap d =
     (case Create_body fs initialSize count pch directory openFileDir freeMap d of
        (Inl e, d1) \<Rightarrow> (Inl e, d1)
      | (Inr (success, directory1, openFileDir1, freeMap1), d1) \<Rightarrow>
          (case delete_pointer freeMap1 of
             Inl e \<Rightarrow> (Inl e, d1)
           | Inr u \<Rightarrow> (Inr success, d1)))"
| "Create_while fs initialSize count pch (p # ps) directory openFileDir freeMap d =
     (case Create_body fs initialSize count pch directory openFileDir freeMap d of
        (Inl e, d1) \<Rightarrow> (Inl e, d1)
      | (Inr (success, directory1, openFileDir1, freeMap1), d1) \<Rightarrow>
          Create_while fs initialSize (Suc count) p ps directory1 openFileDir1 freeMap1 d1)"

text \<open>
  The loop tests its condition after the first iteration, so a path without any
  component reaches \<^verbatim>\<open>Find\<close> and \<^verbatim>\<open>Add\<close> with a null name. The variables
  \<^verbatim>\<open>openFileDir\<close> and \<^verbatim>\<open>freeMap\<close> are declared without an initial value.
\<close>

definition Create :: "FileSystem \<Rightarrow> string \<Rightarrow> int \<Rightarrow> (error + bool) \<times> FileSystem" where
  "Create fs path initialSize =
     (case strtok path of
        [] \<Rightarrow> (Inl NullPointer, fs)
      | pch # rest \<Rightarrow>
          (case Directory_FetchFrom (disk fs) (directoryFile fs) of
             Inl e \<Rightarrow> (Inl e, fs)
           | Inr directory \<Rightarrow>
               (case Create_while fs initialSize 0 pch rest directory Uninitialized
                       Uninitialized (disk fs) of
                  (r, d1) \<Rightarrow> (r, fs\<lparr>disk := d1\<rparr>))))"

subsection \<open>\<^verbatim>\<open>FileSystem::CreateDir\<close>\<close>

definition CreateDir_flush ::
  "FileSystem \<Rightarrow> nat \<Rightarrow> OpenFile pointer \<Rightarrow> FileHeader \<Rightarrow> int \<Rightarrow> Directory \<Rightarrow> Bitmap
     \<Rightarrow> Disk \<Rightarrow> OpenFile io" where
  "CreateDir_flush fs count openFileDir h s t freeMap d =
     (case Create_flush fs count openFileDir h s t freeMap d of
        (Inl e, d1) \<Rightarrow> (Inl e, d1)
      | (Inr u, d1) \<Rightarrow>
          (case new_OpenFile d1 s of
             Inl e \<Rightarrow> (Inl e, d1)
           | Inr g \<Rightarrow>
               (case Directory_WriteBack d1 g (Some (new_Directory NumDirEntries)) of
                  (Inl e, d2) \<Rightarrow> (Inl e, d2)
                | (Inr u, d2) \<Rightarrow> (Inr g, d2))))"

text \<open>
  The variable \<^verbatim>\<open>newDir\<close> is declared without an initial value. Its one assignment, in
  the branch in which \<^verbatim>\<open>Allocate\<close> succeeded, is followed by \<^verbatim>\<open>delete newDir\<close> in the
  same iteration. So where an iteration begins, and where \<^verbatim>\<open>delete newDir\<close> is reached
  after \<^verbatim>\<open>Allocate\<close> failed, the variable either was never assigned or points to an
  object that an earlier iteration has deleted.
\<close>

datatype stale = NeverAssigned | Deleted

definition delete_stale :: "stale \<Rightarrow> error" where
  "delete_stale p = (case p of NeverAssigned \<Rightarrow> UninitializedUse | Deleted \<Rightarrow> DoubleDelete)"

text \<open>
  One iteration of the loop: the values of \<^verbatim>\<open>success\<close>, \<^verbatim>\<open>openFileDir\<close> and \<^verbatim>\<open>newDir\<close>
  after it. The operands of \<^verbatim>\<open>delete hdr\<close>, \<^verbatim>\<open>delete freeMap\<close> and \<^verbatim>\<open>delete directory\<close>
  are assigned in the iteration itself.
\<close>

definition CreateDir_body ::
  "FileSystem \<Rightarrow> nat \<Rightarrow> string \<Rightarrow> OpenFile pointer \<Rightarrow> stale \<Rightarrow> Disk
     \<Rightarrow> (bool \<times> OpenFile pointer \<times> stale) io" where
  "CreateDir_body fs count pch openFileDir newDir d =
     (case dir_file fs count openFileDir of
        Inl e \<Rightarrow> (Inl e, d)
      | Inr f \<Rightarrow>
     (case Directory_FetchFrom d f of
        Inl e \<Rightarrow> (Inl e, d)
      | Inr None \<Rightarrow> (Inl JunkData, d)
      | Inr (Some t) \<Rightarrow>
          if Find t pch \<noteq> - 1 then
            (case new_OpenFile d (Find t pch) of
               Inl e \<Rightarrow> (Inl e, d)
             | Inr g \<Rightarrow> (Inr (False, Pointer g, newDir), d))
          else
            (case Bitmap_FetchFrom d (freeMapFile fs) of
               Inl e \<Rightarrow> (Inl e, d)
             | Inr freeMap \<Rightarrow>
                 (case FindAndSet freeMap of (s, m1) \<Rightarrow>
                    if s = - 1 then (Inr (False, openFileDir, newDir), d)
                    else
                      (case AddDir t pch s of (added, t1) \<Rightarrow>
                         if \<not> added then (Inr (False, openFileDir, newDir), d)
                         else
                           (case Allocate new_FileHeader m1 d DirectoryFileSize of
                              (Inl e, d1) \<Rightarrow> (Inl e, d1)
                            | (Inr (ok, h, m2), d1) \<Rightarrow>
                                if \<not> ok then (Inl (delete_stale newDir), d1)
                                else
                                  (case CreateDir_flush fs count openFileDir h s t1 m2 d1 of
                                     (Inl e, d2) \<Rightarrow> (Inl e, d2)
                                   | (Inr g, d2) \<Rightarrow> (Inr (True, Pointer g, Deleted), d2))))))))"

text \<open>
  The loop, followed by \<^verbatim>\<open>delete openFileDir\<close> and the \<^verbatim>\<open>return\<close>. Neither
  \<^verbatim>\<open>openFileDir\<close> nor \<^verbatim>\<open>success\<close> is assigned before the loop; \<^verbatim>\<open>success\<close> is an
  optional value here.
\<close>

fun CreateDir_while ::
  "FileSystem \<Rightarrow> nat \<Rightarrow> string list \<Rightarrow> bool option \<Rightarrow> OpenFile pointer \<Rightarrow> stale \<Rightarrow> Disk
     \<Rightarrow> bool io" where
  "CreateDir_while fs count [] success openFileDir newDir d =
     (case delete_pointer openFileDir of
        Inl e \<Rightarrow> (Inl e, d)
      | Inr u \<Rightarrow>
          (case success of None \<Rightarrow> (Inl UninitializedUse, d) | Some b \<Rightarrow> (Inr b, d)))"
| "CreateDir_while fs count (pch # rest) success openFileDir newDir d =
     (case CreateDir_body fs count pch openFileDir newDir d of
        (Inl e, d1) \<Rightarrow> (Inl e, d1)
      | (Inr (success1, openFileDir1, newDir1), d1) \<Rightarrow>
          CreateDir_while fs (Suc count) rest (Some success1) openFileDir1 newDir1 d1)"

definition CreateDir :: "FileSystem \<Rightarrow> string \<Rightarrow> (error + bool) \<times> FileSystem" where
  "CreateDir fs path =
     (case CreateDir_while fs 0 (strtok path) None Uninitialized NeverAssigned (disk fs) of
        (r, d1) \<Rightarrow> (r, fs\<lparr>disk := d1\<rparr>))"

subsection \<open>\<^verbatim>\<open>FileSystem::Open\<close> and the table of open files\<close>

fun Open_while ::
  "Disk \<Rightarrow> string list \<Rightarrow> Directory option \<Rightarrow> OpenFile pointer \<Rightarrow> error + OpenFile pointer" where
  "Open_while d [] directory openFileDir = Inr openFileDir"
| "Open_while d (pch # rest) directory openFileDir =
     (case directory of
        None \<Rightarrow> Inl JunkData
      | Some t \<Rightarrow>
          if Find t pch \<ge> 0 then
            (case new_OpenFile d (Find t pch) of
               Inl e \<Rightarrow> Inl e
             | Inr f \<Rightarrow>
                 (case Directory_FetchFrom d f of
                    Inl e \<Rightarrow> Inl e
                  | Inr directory1 \<Rightarrow> Open_while d rest directory1 (Pointer f)))
          else Open_while d rest directory openFileDir)"

definition Open :: "FileSystem \<Rightarrow> string \<Rightarrow> error + OpenFile pointer" where
  "Open fs path =
     (case Directory_FetchFrom (disk fs) (directoryFile fs) of
        Inl e \<Rightarrow> Inl e
      | Inr directory \<Rightarrow> Open_while (disk fs) (strtok path) directory Uninitialized)"

text \<open>
  \<^verbatim>\<open>OpenId\<close>: the loop increments \<^verbatim>\<open>fd\<close> before it tests the slot, so it looks at the
  slots 1 to 21. The test of a slot that holds an unassigned pointer value has no defined
  outcome.
\<close>

function OpenId_while ::
  "(int \<Rightarrow> OpenFile pointer) \<Rightarrow> OpenFile pointer \<Rightarrow> int
     \<Rightarrow> error + int \<times> (int \<Rightarrow> OpenFile pointer)" where
  "OpenId_while tbl file fd =
     (if fd \<le> 20 then
        (case tbl (fd + 1) of
           Uninitialized \<Rightarrow> Inl UninitializedUse
         | Null \<Rightarrow> Inr (fd + 1, tbl(fd + 1 := file))
         | Pointer g \<Rightarrow> OpenId_while tbl file (fd + 1))
      else Inr (fd, tbl))"
  by pat_completeness auto

termination
  by (relation "measure (\<lambda>(tbl, file, fd). nat (21 - fd))") auto

definition OpenId :: "FileSystem \<Rightarrow> string \<Rightarrow> error + int \<times> FileSystem" where
  "OpenId fs path =
     (case Open fs path of
        Inl e \<Rightarrow> Inl e
      | Inr file \<Rightarrow>
          (case OpenId_while (OpenTable fs) file 0 of
             Inl e \<Rightarrow> Inl e
           | Inr (fd, tbl) \<Rightarrow>
               if fd \<le> 20 then Inr (fd, fs\<lparr>OpenTable := tbl\<rparr>) else Inl AssertionFailed))"

text \<open>
  \<^verbatim>\<open>kwrite\<close> and \<^verbatim>\<open>kread\<close> call \<^verbatim>\<open>Write\<close> and \<^verbatim>\<open>Read\<close> on the pointer stored in the slot.
  The two methods of the open file are not among the sources; they are the parameter
  \<open>transfer\<close>.
\<close>

definition kwrite ::
  "(OpenFile \<Rightarrow> string \<Rightarrow> int \<Rightarrow> 'r) \<Rightarrow> FileSystem \<Rightarrow> string \<Rightarrow> int \<Rightarrow> int \<Rightarrow> error + 'r" where
  "kwrite transfer fs buffer len fid =
     (case deref (OpenTable fs fid) of
        Inl e \<Rightarrow> Inl e
      | Inr file \<Rightarrow> Inr (transfer file buffer len))"

definition kread ::
  "(OpenFile \<Rightarrow> string \<Rightarrow> int \<Rightarrow> 'r) \<Rightarrow> FileSystem \<Rightarrow> string \<Rightarrow> int \<Rightarrow> int \<Rightarrow> error + 'r" where
  "kread transfer fs buffer len fid =
     (case deref (OpenTable fs fid) of
        Inl e \<Rightarrow> Inl e
      | Inr file \<Rightarrow> Inr (transfer file buffer len))"

definition kclose :: "FileSystem \<Rightarrow> int \<Rightarrow> error + int \<times> FileSystem" where
  "kclose fs fid =
     (case OpenTable fs fid of
        Uninitialized \<Rightarrow> Inl UninitializedUse
      | Null \<Rightarrow> Inr (0, fs)
      | Pointer file \<Rightarrow> Inr (1, fs\<lparr>OpenTable := (OpenTable fs)(fid := Null)\<rparr>))"

subsection \<open>\<^verbatim>\<open>FileSystem::Remove\<close>\<close>

text \<open>
  \<^verbatim>\<open>Remove\<close> does not call \<^verbatim>\<open>strtok\<close>: it looks the whole argument up in the root
  directory.
\<close>

definition Remove_flush :: "FileSystem \<Rightarrow> Bitmap \<Rightarrow> Directory \<Rightarrow> Disk \<Rightarrow> unit io" where
  "Remove_flush fs freeMap t d =
     (case Bitmap_WriteBack d (freeMapFile fs) freeMap of
        (Inl e, d1) \<Rightarrow> (Inl e, d1)
      | (Inr u, d1) \<Rightarrow> Directory_WriteBack d1 (directoryFile fs) (Some t))"

definition Remove :: "FileSystem \<Rightarrow> string \<Rightarrow> (error + bool) \<times> FileSystem" where
  "Remove fs path =
     (case Directory_FetchFrom (disk fs) (directoryFile fs) of
        Inl e \<Rightarrow> (Inl e, fs)
      | Inr None \<Rightarrow> (Inl JunkData, fs)
      | Inr (Some t) \<Rightarrow>
          if Find t path = - 1 then (Inr False, fs)
          else
     (case FetchFrom (disk fs) (Find t path) of
        Inl e \<Rightarrow> (Inl e, fs)
      | Inr fileHdr \<Rightarrow>
     (case Bitmap_FetchFrom (disk fs) (freeMapFile fs) of
        Inl e \<Rightarrow> (Inl e, fs)
      | Inr freeMap \<Rightarrow>
     (case Deallocate fileHdr freeMap of
        Inl e \<Rightarrow> (Inl e, fs)
      | Inr m1 \<Rightarrow>
     (case Clear m1 (Find t path) of
        Inl e \<Rightarrow> (Inl e, fs)
      | Inr m2 \<Rightarrow>
     (case Remove_flush fs m2 (snd (Remove_entry t path)) (disk fs) of
        (Inl e, d1) \<Rightarrow> (Inl e, fs\<lparr>disk := d1\<rparr>)
      | (Inr u, d1) \<Rightarrow> (Inr True, fs\<lparr>disk := d1\<rparr>)))))))"

subsection \<open>\<^verbatim>\<open>FileSystem::List\<close>\<close>

text \<open>
  The walk of \<^verbatim>\<open>List\<close> enters a component only if \<^verbatim>\<open>Find\<close> gives a sector above 0; it
  returns what \<^verbatim>\<open>Directory::List\<close> prints for the directory it ends in.
\<close>

fun List_while :: "Disk \<Rightarrow> string list \<Rightarrow> Directory option \<Rightarrow> error + Directory option" where
  "List_while d [] directory = Inr directory"
| "List_while d (pch # rest) directory =
     (case directory of
        None \<Rightarrow> Inl JunkData
      | Some t \<Rightarrow>
          if Find t pch > 0 then
            (case new_OpenFile d (Find t pch) of
               Inl e \<Rightarrow> Inl e
             | Inr f \<Rightarrow>
                 (case Directory_FetchFrom d f of
                    Inl e \<Rightarrow> Inl e
                  | Inr directory1 \<Rightarrow> List_while d rest directory1))
          else List_while d rest directory)"

definition List :: "FileSystem \<Rightarrow> string \<Rightarrow> error + (string \<times> bool) list" where
  "List fs path =
     (case Directory_FetchFrom (disk fs) (directoryFile fs) of
        Inl e \<Rightarrow> Inl e
      | Inr directory \<Rightarrow>
          (case List_while (disk fs) (strtok path) directory of
             Inl e \<Rightarrow> Inl e
           | Inr None \<Rightarrow> Inl JunkData
           | Inr (Some t) \<Rightarrow> Inr (Directory_List t)))"

section \<open>Reference states\<close>

text \<open>
  The bitmap in which exactly the first \<open>k\<close> sectors are marked, and the disk on which
  nothing has been written.
\<close>

definition first_marked :: "nat \<Rightarrow> Bitmap" where
  "first_marked k = replicate k True @ replicate (NumSectors - k) False"

definition blank :: Disk where
  "blank = (\<lambda>s. Untracked)"

text \<open>
  The headers of the bitmap file and of the root directory file after formatting, the
  sectors a transfer of \<open>len\<close> bytes touches, the files the lemmas below can read back
  (within the direct span, at least \<open>len\<close> bytes long, their sectors on the disk and
  distinct), the disk after the image of a table or bitmap has been written to a file,
  and the file system on a blank disk after formatting.
\<close>

definition mapHdr :: FileHeader where
  "mapHdr = \<lparr>numBytes = 128, numSectors = 1, dataSectors = 2 # replicate 29 (- 1)\<rparr>"

definition dirHdr :: FileHeader where
  "dirHdr = \<lparr>numBytes = 1280, numSectors = 10,
             dataSectors = map int [3..<13] @ replicate 20 (- 1)\<rparr>"

definition file_sectors :: "FileHeader \<Rightarrow> int \<Rightarrow> int list" where
  "file_sectors h len = map (\<lambda>k. dataSectors h ! k) [0..<transfer_span h len]"

definition good_file :: "FileHeader \<Rightarrow> int \<Rightarrow> bool" where
  "good_file h len =
     (len \<le> numBytes h \<and> numBytes h \<le> MaxFileSize \<and>
      transfer_span h len \<le> length (dataSectors h) \<and>
      list_all (\<lambda>s. 0 \<le> s \<and> s < int NumSectors) (file_sectors h len) \<and>
      distinct (file_sectors h len))"

definition store :: "Disk \<Rightarrow> FileHeader \<Rightarrow> int \<Rightarrow> blob \<Rightarrow> Disk" where
  "store d h len b = fold (\<lambda>k d. d(dataSectors h ! k := Piece b k)) [0..<transfer_span h len] d"

definition disk0 :: Disk where
  "disk0 =
     store (store (blank(0 := HeaderData mapHdr, 1 := HeaderData dirHdr))
              mapHdr FreeMapFileSize (BitsImage (first_marked 13)))
       dirHdr DirectoryFileSize (TableImage (new_Directory NumDirEntries))"

definition fs0 :: FileSystem where
  "fs0 = \<lparr>disk = disk0, freeMapFile = OpenFile mapHdr, directoryFile = OpenFile dirHdr,
           OpenTable = (\<lambda>i. Null)\<rparr>"

text \<open>
  The state after \<^verbatim>\<open>Create("/a.txt", 50)\<close> on the formatted disk (lemma \<open>Create_a\<close>
  below): the header of the new file in sector 13, its data in sector 14.
\<close>

definition aHdr :: FileHeader where
  "aHdr = \<lparr>numBytes = 50, numSectors = 1, dataSectors = 14 # replicate 29 (- 1)\<rparr>"

definition unused :: DirectoryEntry where
  "unused = \<lparr>inUse = False, isDir = False, sector = 0, name = []\<rparr>"

definition root1 :: Directory where
  "root1 = \<lparr>inUse = True, isDir = False, sector = 13, name = ''a.txt''\<rparr> # replicate 63 unused"

definition disk1 :: Disk where
  "disk1 = store (store (disk0(13 := HeaderData aHdr)) dirHdr DirectoryFileSize (TableImage root1))
             mapHdr FreeMapFileSize (BitsImage (first_marked 15))"

definition fs1 :: FileSystem where
  "fs1 = fs0\<lparr>disk := disk1\<rparr>"

text \<open>
  Every component of a path is found on the walk of \<^verbatim>\<open>Create\<close>: it is in the current
  directory, and the file its entry names can be opened and read as the next directory
  (a file above the direct span cannot: the read ends in \<open>MissingReturn\<close>).
\<close>

fun found_along :: "Disk \<Rightarrow> Directory option \<Rightarrow> string list \<Rightarrow> bool" where
  "found_along d directory [] = True"
| "found_along d directory (pch # rest) =
     (case directory of
        None \<Rightarrow> False
      | Some t \<Rightarrow>
          Find t pch \<noteq> - 1 \<and>
          (case new_OpenFile d (Find t pch) of
             Inl e \<Rightarrow> False
           | Inr f \<Rightarrow>
               (case Directory_FetchFrom d f of
                  Inl e \<Rightarrow> False
                | Inr directory1 \<Rightarrow> found_along d directory1 rest)))"

text \<open>
  The sectors a bitmap marks; a list of sectors all of which it marks; the state in
  which the loop of \<^verbatim>\<open>CreateDir\<close> can extend the directory held by the file \<open>f\<close>: the
  bitmap file and \<open>f\<close> can be read back as the bitmap \<open>freeMap\<close> (one bit per sector)
  and the table \<open>t\<close>, their sectors are marked in \<open>freeMap\<close>, and they share none.
\<close>

definition marked_sectors :: "Bitmap \<Rightarrow> int set" where
  "marked_sectors bm = {s. 0 \<le> s \<and> s < int (length bm) \<and> bm ! nat s}"

definition allocated :: "Bitmap \<Rightarrow> int list \<Rightarrow> bool" where
  "allocated bm ss = list_all (\<lambda>s. 0 \<le> s \<and> s < int (length bm) \<and> bm ! nat s) ss"

definition dir_state :: "FileSystem \<Rightarrow> Disk \<Rightarrow> OpenFile \<Rightarrow> Bitmap \<Rightarrow> Directory \<Rightarrow> bool" where
  "dir_state fs d f freeMap t =
     (good_file (hdr (freeMapFile fs)) FreeMapFileSize \<and>
      good_file (hdr f) DirectoryFileSize \<and>
      Bitmap_FetchFrom d (freeMapFile fs) = Inr freeMap \<and>
      length freeMap = NumSectors \<and>
      Directory_FetchFrom d f = Inr (Some t) \<and>
      allocated freeMap (file_sectors (hdr (freeMapFile fs)) FreeMapFileSize) \<and>
      allocated freeMap (file_sectors (hdr f) DirectoryFileSize) \<and>
      list_all (\<lambda>s. s \<notin> set (file_sectors (hdr f) DirectoryFileSize))
        (file_sectors (hdr (freeMapFile fs)) FreeMapFileSize))"

text \<open>
  The directory file the walk of \<^verbatim>\<open>CreateDir\<close> reaches through components that exist,
  and the result the claim describes: from the file \<open>f\<close>, each component names an entry
  of kind directory whose file holds the next table, and the last one holds an empty
  table.
\<close>

fun reach :: "Disk \<Rightarrow> OpenFile \<Rightarrow> string list \<Rightarrow> OpenFile option" where
  "reach d f [] = Some f"
| "reach d f (c # cs) =
     (case Directory_FetchFrom d f of
        Inr (Some t) \<Rightarrow>
          if Find t c \<noteq> - 1 then
            (case new_OpenFile d (Find t c) of
               Inl e \<Rightarrow> None
             | Inr g \<Rightarrow> reach d g cs)
          else None
      | _ \<Rightarrow> None)"

fun nested_dirs :: "Disk \<Rightarrow> OpenFile \<Rightarrow> string list \<Rightarrow> bool" where
  "nested_dirs d f [] = (Directory_FetchFrom d f = Inr (Some (new_Directory NumDirEntries)))"
| "nested_dirs d f (c # cs) =
     (case Directory_FetchFrom d f of
        Inr (Some t) \<Rightarrow>
          (case FindIndex t c of
             None \<Rightarrow> False
           | Some i \<Rightarrow>
               isDir (t ! i) \<and>
               (case new_OpenFile d (sector (t ! i)) of
                  Inl e \<Rightarrow> False
                | Inr g \<Rightarrow> nested_dirs d g cs))
      | _ \<Rightarrow> False)"

section \<open>Bitmaps with a marked prefix\<close>

declare Allocate.simps [simp del] Allocate_while.simps [simp del]

lemma first_clear_prefix: "first_clear (replicate k True @ False # xs) = Some k"
  by (induction k) simp_all

lemma FindAndSet_prefix:
  "FindAndSet (replicate k True @ replicate (Suc m) False)
     = (int k, replicate (Suc k) True @ replicate m False)"
proof -
  have "first_clear (replicate k True @ replicate (Suc m) False) = Some k"
    using first_clear_prefix [of k "replicate m False"] by simp
  moreover have "(replicate k True @ replicate (Suc m) False)[k := True]
      = replicate (Suc k) True @ replicate m False"
    by (simp add: list_update_append replicate_app_Cons_same)
  ultimately show ?thesis by (simp add: FindAndSet_def)
qed

lemma FindAndSet_first_marked:
  assumes "k < NumSectors"
  shows "FindAndSet (first_marked k) = (int k, first_marked (Suc k))"
proof -
  from assms have "NumSectors - k = Suc (NumSectors - Suc k)" by simp
  then show ?thesis
    unfolding first_marked_def using FindAndSet_prefix [of k "NumSectors - Suc k"] by simp
qed

lemma NumClear_first_marked:
  "k \<le> NumSectors \<Longrightarrow> NumClear (first_marked k) = int (NumSectors - k)"
  by (simp add: NumClear_def first_marked_def)

lemma length_first_marked: "k \<le> NumSectors \<Longrightarrow> length (first_marked k) = NumSectors"
  by (simp add: first_marked_def)

lemma nth_first_marked:
  "k \<le> NumSectors \<Longrightarrow> i < NumSectors \<Longrightarrow> first_marked k ! i = (i < k)"
  by (simp add: first_marked_def nth_append)

lemma Allocate_for_first_marked:
  "i + n \<le> length (dataSectors h) \<Longrightarrow> k + n \<le> NumSectors \<Longrightarrow>
   Allocate_for i n h (first_marked k) =
     Inr (h\<lparr>dataSectors :=
              take i (dataSectors h) @ map int [k..<k + n] @ drop (i + n) (dataSectors h)\<rparr>,
          first_marked (k + n))"
proof (induction n arbitrary: i k h)
  case 0
  then show ?case by simp
next
  case (Suc n)
  let ?h = "h\<lparr>dataSectors := (dataSectors h)[i := int k]\<rparr>"
  have fs: "FindAndSet (first_marked k) = (int k, first_marked (Suc k))"
    using Suc.prems by (simp add: FindAndSet_first_marked)
  have ih: "Allocate_for (Suc i) n ?h (first_marked (Suc k)) =
     Inr (?h\<lparr>dataSectors := take (Suc i) (dataSectors ?h) @ map int [Suc k..<Suc k + n]
            @ drop (Suc i + n) (dataSectors ?h)\<rparr>, first_marked (Suc k + n))"
    using Suc.prems by (intro Suc.IH) simp_all
  have t: "take (Suc i) ((dataSectors h)[i := int k]) = take i (dataSectors h) @ [int k]"
    using Suc.prems by (simp add: take_Suc_conv_app_nth)
  have u: "[k..<Suc (k + n)] = k # [Suc k..<Suc (k + n)]"
    by (simp add: upt_conv_Cons)
  show ?case
    using Suc.prems by (simp add: fs ih t u del: upt_Suc)
qed

lemmas const_defs = SectorSize_def NumSectors_def NumDirect_def MaxFileSize_def
  MaxFileSize2_def MaxFileSize3_def FreeMapSector_def DirectorySector_def NumDirEntries_def
  FreeMapFileSize_def DirectoryFileSize_def

lemmas arith_defs = c_div_def c_mod_def divRoundDown_def divRoundUp_def

lemma below_NumSectors:
  "(k::nat) < 1024 \<Longrightarrow> k < NumSectors"
  "(k::nat) \<le> 1024 \<Longrightarrow> k \<le> NumSectors"
  by (simp_all add: NumSectors_def)

lemma replicate_update_0: "0 < n \<Longrightarrow> (replicate n x)[0 := y] = y # replicate (n - 1) x"
  by (cases n) simp_all

lemmas alloc_eval = Allocate.simps Allocate_while.simps replicate_update_0 NumSectors_def
  Let_def arith_defs SectorSize_def MaxFileSize_def MaxFileSize2_def MaxFileSize3_def
  NumDirect_def NumClear_first_marked Allocate_for_first_marked FindAndSet_first_marked
  below_NumSectors new_FileHeader_def WriteBack_def WriteSector_def

section \<open>A file of 3841 bytes\<close>

text \<open>
  With the first 13 sectors in use (the state of the bitmap after formatting), a file of
  3841 bytes gets two child headers, in sectors 13 and 44; the first child owns the data
  sectors 14 to 43, the second the data sector 45.
\<close>

lemma Allocate_3841:
  "Allocate new_FileHeader (first_marked 13) blank 3841 =
     (Inr (True,
           \<lparr>numBytes = 3841, numSectors = 31, dataSectors = 13 # 44 # replicate 28 (- 1)\<rparr>,
           first_marked 46),
      blank(13 := HeaderData
                    \<lparr>numBytes = 3840, numSectors = 30, dataSectors = map int [14..<44]\<rparr>,
            44 := HeaderData
                    \<lparr>numBytes = 1, numSectors = 1, dataSectors = 45 # replicate 29 (- 1)\<rparr>))"
  by (simp add: alloc_eval)

lemma Deallocate_for_step:
  "0 < n \<Longrightarrow> Deallocate_for i n h freeMap =
     (case array_get (dataSectors h) (int i) of
        Inl e \<Rightarrow> Inl e
      | Inr s \<Rightarrow>
          (case Test freeMap s of
             Inl e \<Rightarrow> Inl e
           | Inr marked \<Rightarrow>
               if \<not> marked then Inl AssertionFailed
               else
                 (case Clear freeMap s of
                    Inl e \<Rightarrow> Inl e
                  | Inr m1 \<Rightarrow> Deallocate_for (Suc i) (n - 1) h m1)))"
  by (cases n) (simp_all cong: sum.case_cong if_cong)

text \<open>
  Claim C1. The claim: for every file built by \<open>Allocate\<close>, also one that needs
  indirection, \<open>Deallocate\<close> on its top-level header clears every sector of the tree, so
  that the number of clear bits is back to what it was before the allocation.

  The code: the loop of \<open>Deallocate\<close> runs over \<open>numSectors\<close> entries of the top-level
  array and never fetches a child. For a file of 3841 bytes allocated after formatting,
  33 sectors are taken; \<open>Deallocate\<close> clears the two child header sectors, reaches the
  unused entry \<open>-1\<close> of the array and fails its assertion. The 31 data sectors stay
  marked.
\<close>

theorem Deallocate_indirect_file_aborts:
  "case Allocate new_FileHeader (first_marked 13) blank 3841 of
     (Inr (ok, h, m), d) \<Rightarrow>
        ok \<and> NumClear m = NumClear (first_marked 13) - 33 \<and>
        Deallocate h m = Inl AssertionFailed
   | (Inl e, d) \<Rightarrow> False"
  by (simp add: Allocate_3841 Deallocate_def Deallocate_for_step array_get_def Test_def
      Clear_def length_first_marked nth_first_marked NumClear_first_marked below_NumSectors)

text \<open>
  Claim C2. The claim: \<open>Allocate\<close> checks that the free space suffices for the whole
  tree, child headers included, before it takes any sector, and returns failure instead
  of aborting or leaving a partial allocation.

  The code: the only check compares \<open>NumClear\<close> with the number of data sectors. With 32
  free sectors a file of 3841 bytes (31 data sectors and 2 child headers) passes the
  check; the first child is allocated and written to sector 992, and the \<^verbatim>\<open>ASSERT\<close> on
  the allocation of the second child fails.
\<close>

theorem Allocate_aborts_on_child_header_shortage:
  "divRoundUp 3841 SectorSize \<le> NumClear (first_marked 992) \<and>
   Allocate new_FileHeader (first_marked 992) blank 3841 =
     (Inl AssertionFailed,
      blank(992 := HeaderData
                     \<lparr>numBytes = 3840, numSectors = 30, dataSectors = map int [993..<1023]\<rparr>))"
  by (simp add: alloc_eval)

text \<open>
  Claim C3. The claim: for every header built by \<open>Allocate\<close> and every offset within the
  file, \<open>ByteToSector\<close> returns the data sector that covers the offset; an indirect
  record returns the sector its recursion yields.

  The code: the indirect branches call \<open>ByteToSector\<close> on the child and drop the result;
  the function ends without a \<^verbatim>\<open>return\<close>. For the file of 3841 bytes and offset 0 the
  recursion finds sector 14, and the call itself has no value.
\<close>

theorem ByteToSector_indirect_file_no_value:
  "case Allocate new_FileHeader (first_marked 13) blank 3841 of
     (Inr (ok, h, m), d) \<Rightarrow> ok \<and> ByteToSector d h 0 = Some (Inl MissingReturn)
   | (Inl e, d) \<Rightarrow> False"
proof -
  let ?child = "\<lparr>numBytes = 3840, numSectors = 30, dataSectors = map int [14..<44]\<rparr>"
  let ?top = "\<lparr>numBytes = 3841, numSectors = 31, dataSectors = 13 # 44 # replicate 28 (- 1)\<rparr>"
  let ?d = "blank(13 := HeaderData ?child,
                  44 := HeaderData
                    \<lparr>numBytes = 1, numSectors = 1, dataSectors = 45 # replicate 29 (- 1)\<rparr>)"
  have child: "ByteToSector ?d ?child 0 = Some (Inr 14)"
    by (subst ByteToSector.simps) (simp add: Let_def arith_defs const_defs array_get_def)
  have "ByteToSector ?d ?top 0 = Some (Inl MissingReturn)"
    using child
    by (subst ByteToSector.simps)
      (simp add: Let_def arith_defs const_defs child_header_def array_get_def FetchFrom_def
        ReadSector_def falls_off_end_def)
  then show ?thesis by (simp add: Allocate_3841)
qed

section \<open>Reading back what was written\<close>

lemma c_div_mult: "0 < s \<Longrightarrow> c_div (int k * s) s = int k"
  by (simp add: c_div_def abs_mult sgn_mult) (cases k; simp)

lemma sector_of_direct:
  "numBytes h \<le> MaxFileSize \<Longrightarrow> k < length (dataSectors h) \<Longrightarrow>
   sector_of h (int k * SectorSize) = Inr (dataSectors h ! k)"
  by (simp add: sector_of_def c_div_mult array_get_def SectorSize_def)

lemma write_pieces_direct:
  "numBytes h \<le> MaxFileSize \<Longrightarrow>
   list_all (\<lambda>k. k < length (dataSectors h) \<and> 0 \<le> dataSectors h ! k \<and> dataSectors h ! k < int NumSectors) ks \<Longrightarrow>
   write_pieces d h img ks = (Inr (), fold (\<lambda>k d. d(dataSectors h ! k := img k)) ks d)"
  by (induction ks arbitrary: d) (simp_all add: sector_of_direct WriteSector_def)

lemma read_pieces_direct:
  "numBytes h \<le> MaxFileSize \<Longrightarrow>
   list_all (\<lambda>k. k < length (dataSectors h) \<and> 0 \<le> dataSectors h ! k \<and> dataSectors h ! k < int NumSectors) ks \<Longrightarrow>
   read_pieces d h ks = Inr (map (\<lambda>k. d (dataSectors h ! k)) ks)"
  by (induction ks) (simp_all add: sector_of_direct ReadSector_def)

lemma good_file_pieces:
  "good_file h len \<Longrightarrow>
   list_all (\<lambda>k. k < length (dataSectors h) \<and> 0 \<le> dataSectors h ! k \<and> dataSectors h ! k < int NumSectors)
     [0..<transfer_span h len]"
  by (auto simp: good_file_def file_sectors_def list_all_iff)

lemma WriteAt_good:
  "good_file h len \<Longrightarrow> WriteAt d (OpenFile h) (Some b) len = (Inr (), store d h len b)"
  using write_pieces_direct [OF _ good_file_pieces, of h len]
  by (simp add: WriteAt_def store_def good_file_def)

lemma fold_upd_other:
  "s \<notin> g ` set ks \<Longrightarrow> fold (\<lambda>k d. d(g k := v k)) ks d s = d s"
  by (induction ks arbitrary: d) auto

lemma fold_upd_same:
  "distinct (map g ks) \<Longrightarrow> k \<in> set ks \<Longrightarrow> fold (\<lambda>k d. d(g k := v k)) ks d (g k) = v k"
  by (induction ks arbitrary: d) (auto simp: fold_upd_other)

lemma store_other: "s \<notin> set (file_sectors h len) \<Longrightarrow> store d h len b s = d s"
  unfolding store_def file_sectors_def by (rule fold_upd_other) simp

lemma store_same:
  "distinct (file_sectors h len) \<Longrightarrow> k < transfer_span h len \<Longrightarrow>
   store d h len b (dataSectors h ! k) = Piece b k"
  unfolding store_def file_sectors_def by (rule fold_upd_same) simp_all

lemma ReadAt_cong:
  assumes "good_file h len" "\<And>s. s \<in> set (file_sectors h len) \<Longrightarrow> d' s = d s"
  shows "ReadAt d' (OpenFile h) len = ReadAt d (OpenFile h) len"
proof -
  have eq: "map (\<lambda>k. d' (dataSectors h ! k)) [0..<transfer_span h len]
      = map (\<lambda>k. d (dataSectors h ! k)) [0..<transfer_span h len]"
    using assms(2) by (simp add: file_sectors_def)
  have le: "numBytes h \<le> MaxFileSize"
    using assms(1) by (simp add: good_file_def)
  show ?thesis
    by (simp add: ReadAt_def read_pieces_direct [OF le good_file_pieces [OF assms(1)]] eq)
qed

lemma ReadAt_store_other:
  "good_file h len \<Longrightarrow> set (file_sectors h len) \<inter> set (file_sectors h' len') = {} \<Longrightarrow>
   ReadAt (store d h' len' b) (OpenFile h) len = ReadAt d (OpenFile h) len"
  by (rule ReadAt_cong) (auto intro!: store_other)

lemma ReadAt_upd_other:
  "good_file h len \<Longrightarrow> s \<notin> set (file_sectors h len) \<Longrightarrow>
   ReadAt (d(s := v)) (OpenFile h) len = ReadAt d (OpenFile h) len"
  by (rule ReadAt_cong) auto

lemma transfer_span_pos: "0 < len \<Longrightarrow> len \<le> numBytes h \<Longrightarrow> 0 < transfer_span h len"
  by (simp add: transfer_span_def)

lemma assemble_Cons:
  "assemble (Piece b 0 # xs) =
     (if Piece b 0 # xs = map (Piece b) [0..<Suc (length xs)] then Some b else None)"
  by (simp add: assemble_def del: upt_Suc)

lemma assemble_pieces: "0 < n \<Longrightarrow> assemble (map (Piece b) [0..<n]) = Some b"
proof -
  assume "0 < n"
  then obtain m where n: "n = Suc m" by (cases n) auto
  have "map (Piece b) [0..<Suc m] = Piece b 0 # map (Piece b) [Suc 0..<Suc m]"
    by (simp add: upt_conv_Cons del: upt_Suc)
  then show ?thesis
    unfolding n using assemble_Cons [of b "map (Piece b) [Suc 0..<Suc m]"]
    by (simp del: upt_Suc)
qed

lemma ReadAt_store_same:
  assumes "good_file h len" "0 < len"
  shows "ReadAt (store d h len b) (OpenFile h) len = Inr (Some b)"
proof -
  have eq: "map (\<lambda>k. store d h len b (dataSectors h ! k)) [0..<transfer_span h len]
      = map (Piece b) [0..<transfer_span h len]"
    using assms(1) by (auto simp: store_same good_file_def)
  have pos: "0 < transfer_span h len"
    using assms by (simp add: transfer_span_pos good_file_def)
  have le: "numBytes h \<le> MaxFileSize" and ge: "len \<le> numBytes h"
    using assms(1) by (simp_all add: good_file_def)
  show ?thesis
    using ge
    by (simp add: ReadAt_def read_pieces_direct [OF le good_file_pieces [OF assms(1)]] eq
        assemble_pieces [OF pos])
qed

lemma file_sectors_mapHdr [simp]: "file_sectors mapHdr FreeMapFileSize = [2]"
  by (simp add: file_sectors_def transfer_span_def mapHdr_def const_defs arith_defs)

lemma file_sectors_dirHdr [simp]: "file_sectors dirHdr DirectoryFileSize = map int [3..<13]"
  by (simp add: file_sectors_def transfer_span_def dirHdr_def const_defs arith_defs upt_rec)

lemma good_mapHdr [simp]: "good_file mapHdr FreeMapFileSize"
  unfolding good_file_def file_sectors_mapHdr
  by (simp add: transfer_span_def mapHdr_def const_defs arith_defs)

lemma good_dirHdr [simp]: "good_file dirHdr DirectoryFileSize"
  unfolding good_file_def file_sectors_dirHdr
  by (simp add: transfer_span_def dirHdr_def const_defs arith_defs)

lemma Allocate_mapHdr:
  "Allocate new_FileHeader (first_marked 2) d FreeMapFileSize = (Inr (True, mapHdr, first_marked 3), d)"
  by (simp add: alloc_eval FreeMapFileSize_def mapHdr_def)

lemma Allocate_dirHdr:
  "Allocate new_FileHeader (first_marked 3) d DirectoryFileSize = (Inr (True, dirHdr, first_marked 13), d)"
  by (simp add: alloc_eval DirectoryFileSize_def NumDirEntries_def dirHdr_def)

lemma Mark_FreeMapSector: "Mark (replicate NumSectors False) FreeMapSector = Inr (first_marked (Suc 0))"
  by (simp add: Mark_def FreeMapSector_def first_marked_def NumSectors_def replicate_update_0)

lemma Mark_DirectorySector: "Mark (first_marked (Suc 0)) DirectorySector = Inr (first_marked 2)"
proof -
  have "FindAndSet (first_marked (Suc 0)) = (1, first_marked 2)"
    using FindAndSet_first_marked [of "Suc 0"] by (simp add: NumSectors_def numeral_2_eq_2)
  then show ?thesis
    by (auto simp: Mark_def DirectorySector_def FindAndSet_def length_first_marked NumSectors_def
        first_clear_prefix first_marked_def split: option.splits)
qed

lemma format_disk_blank: "format_disk blank = (Inr (OpenFile mapHdr, OpenFile dirHdr), disk0)"
  apply (simp add: format_disk_def Mark_FreeMapSector Mark_DirectorySector Allocate_mapHdr Allocate_dirHdr)
  apply (simp add: WriteBack_def WriteSector_def new_OpenFile_def FetchFrom_def ReadSector_def
      Bitmap_WriteBack_def Directory_WriteBack_def WriteAt_good disk0_def
      FreeMapSector_def DirectorySector_def NumSectors_def)
  done

lemma new_FileSystem_blank: "new_FileSystem True blank (\<lambda>i. Null) = Inr fs0"
  by (simp add: new_FileSystem_def format_disk_blank fs0_def)

section \<open>The formatted disk and one file on it\<close>

lemma FindIndex_unused: "\<not> inUse e \<Longrightarrow> FindIndex (replicate n e) x = None"
  by (induction n) simp_all

lemma free_slot_unused: "\<not> inUse e \<Longrightarrow> 0 < n \<Longrightarrow> free_slot (replicate n e) = Some 0"
  by (cases n) simp_all

lemmas dir_eval = Find_def Add_def AddDir_def add_entry_def Remove_entry_def new_Directory_def
  NumDirEntries_def FindIndex_unused free_slot_unused replicate_update_0 Directory_List_def

lemmas read_eval = Directory_FetchFrom_def Bitmap_FetchFrom_def ReadAt_store_same ReadAt_store_other
  ReadAt_upd_other FetchFrom_def ReadSector_def new_OpenFile_def store_other

lemmas write_eval = Directory_WriteBack_def Bitmap_WriteBack_def WriteAt_good WriteBack_def WriteSector_def

lemma len_pos [simp]: "0 < FreeMapFileSize" "0 < DirectoryFileSize"
  by (simp_all add: const_defs)

lemma root0: "Directory_FetchFrom disk0 (OpenFile dirHdr) = Inr (Some (new_Directory NumDirEntries))"
  by (simp add: disk0_def read_eval)

lemma map0: "Bitmap_FetchFrom disk0 (OpenFile mapHdr) = Inr (first_marked 13)"
  by (simp add: disk0_def read_eval)

lemma strtok_a: "strtok ''/a.txt'' = [''a.txt'']"
  by (simp add: strtok_def)

lemma Create_a: "Create fs0 ''/a.txt'' 50 = (Inr True, fs1)"
  apply (simp add: Create_def strtok_a fs0_def root0 Create_body_def map0 FindAndSet_first_marked below_NumSectors)
  apply (simp add: dir_eval)
  apply (simp add: alloc_eval)
  apply (simp add: Create_flush_def dir_file_def write_eval delete_pointer_def fs1_def fs0_def disk1_def
      aHdr_def root1_def unused_def NumSectors_def)
  done

lemma fs1_handles [simp]: "directoryFile fs1 = OpenFile dirHdr" "freeMapFile fs1 = OpenFile mapHdr" "disk fs1 = disk1"
  by (simp_all add: fs1_def fs0_def)

lemma root_fs1: "Directory_FetchFrom disk1 (OpenFile dirHdr) = Inr (Some root1)"
  by (simp add: disk1_def read_eval)

lemma map_fs1: "Bitmap_FetchFrom disk1 (OpenFile mapHdr) = Inr (first_marked 15)"
  by (simp add: disk1_def read_eval)

lemma open_a: "new_OpenFile disk1 13 = Inr (OpenFile aHdr)"
  by (simp add: disk1_def read_eval NumSectors_def)

lemma read_a: "Directory_FetchFrom disk1 (OpenFile aHdr) = Inr None"
  by (simp add: Directory_FetchFrom_def ReadAt_def aHdr_def transfer_span_def const_defs arith_defs
      sector_of_def array_get_def ReadSector_def)

lemma Find_root1: "Find root1 ''a.txt'' = 13" "Find root1 ''/a.txt'' = - 1" "Find root1 ''nope'' = - 1"
  by (simp_all add: root1_def unused_def dir_eval)

section \<open>\<^verbatim>\<open>Create\<close> on a path with a missing directory\<close>

lemma strtok_xa: "strtok ''/x/a.txt'' = [''x'', ''a.txt'']"
  by (simp add: strtok_def)

text \<open>
  Claim C4. The claim: when an intermediate component of the path is absent, \<open>Create\<close>
  fails with a not-found result and nothing has been changed; in particular the missing
  component is not created.

  The code: the loop treats every component alike. On the formatted disk, with the path
  \<^verbatim>\<open>/x/a.txt\<close>, the first iteration does not find \<^verbatim>\<open>x\<close> and creates a plain file of that
  name in the root directory (header, directory and bitmap are written to the disk). The
  second iteration adds \<^verbatim>\<open>a.txt\<close> to the same table in memory, writes its header to
  sector 15 and then writes the directory through \<^verbatim>\<open>openFileDir\<close>, which was never
  assigned.
\<close>

theorem Create_missing_intermediate_component:
  "List fs0 ''/'' = Inr [] \<and>
   (case Create fs0 ''/x/a.txt'' 10 of
      (r, fs) \<Rightarrow>
         r = Inl UninitializedUse \<and>
         List fs ''/'' = Inr [(''x'', False)] \<and>
         Bitmap_FetchFrom (disk fs) (freeMapFile fs) = Inr (first_marked 15) \<and>
         disk fs 15 = HeaderData \<lparr>numBytes = 10, numSectors = 1,
                                   dataSectors = 16 # replicate 29 (- 1)\<rparr>)"
proof -
  let ?x = "\<lparr>inUse = True, isDir = False, sector = 13, name = ''x''\<rparr>"
  let ?h = "\<lparr>numBytes = 10, numSectors = 1, dataSectors = 14 # replicate 29 (- 1)\<rparr>"
  let ?d1 = "store (store (disk0(13 := HeaderData ?h)) dirHdr DirectoryFileSize
                      (TableImage (?x # replicate 63 unused)))
               mapHdr FreeMapFileSize (BitsImage (first_marked 15))"
  have first: "Create_body fs0 10 0 ''x'' (Some (new_Directory NumDirEntries)) Uninitialized
        Uninitialized disk0
      = (Inr (True, Some (?x # replicate 63 unused), Uninitialized, Pointer (first_marked 15)), ?d1)"
    apply (simp add: fs0_def Create_body_def map0 FindAndSet_first_marked below_NumSectors)
    apply (simp add: dir_eval)
    apply (simp add: alloc_eval)
    apply (simp add: Create_flush_def dir_file_def write_eval unused_def NumSectors_def)
    done
  have map1: "Bitmap_FetchFrom ?d1 (OpenFile mapHdr) = Inr (first_marked 15)"
    by (simp add: read_eval)
  have second: "Create_body fs0 10 (Suc 0) ''a.txt'' (Some (?x # replicate 63 unused)) Uninitialized
        (Pointer (first_marked 15)) ?d1
      = (Inl UninitializedUse,
         ?d1(15 := HeaderData \<lparr>numBytes = 10, numSectors = 1, dataSectors = 16 # replicate 29 (- 1)\<rparr>))"
    apply (simp add: Create_body_def fs0_def map1 FindAndSet_first_marked below_NumSectors)
    apply (simp add: dir_eval unused_def)
    apply (simp add: alloc_eval)
    apply (simp add: Create_flush_def dir_file_def deref_def write_eval NumSectors_def)
    done
  have create: "Create fs0 ''/x/a.txt'' 10 = (Inl UninitializedUse,
      fs0\<lparr>disk := ?d1(15 := HeaderData \<lparr>numBytes = 10, numSectors = 1,
                                          dataSectors = 16 # replicate 29 (- 1)\<rparr>)\<rparr>)"
    using first second by (simp add: Create_def strtok_xa root0 fs0_def)
  have before: "List fs0 ''/'' = Inr []"
    by (simp add: List_def fs0_def root0 strtok_def dir_eval)
  show ?thesis
    unfolding create before
    by (simp add: List_def fs0_def strtok_def read_eval Directory_List_def unused_def)
qed

section \<open>\<^verbatim>\<open>Create\<close> on a name that exists\<close>

text \<open>
  When every component of the path is found, no iteration assigns \<^verbatim>\<open>freeMap\<close>, and the
  disk is not written: the loop ends with \<^verbatim>\<open>success\<close> false and \<^verbatim>\<open>freeMap\<close> as it was
  before, and \<^verbatim>\<open>delete freeMap\<close> follows.
\<close>

lemma Create_while_found:
  "found_along d directory (pch # rest) \<Longrightarrow>
   Create_while fs initialSize count pch rest directory openFileDir freeMap d =
     (case delete_pointer freeMap of Inl e \<Rightarrow> (Inl e, d) | Inr u \<Rightarrow> (Inr False, d))"
proof (induction rest arbitrary: pch directory openFileDir count)
  case Nil
  then show ?case
    by (auto simp: Create_body_def split: option.splits sum.splits)
next
  case (Cons p ps)
  from Cons.prems obtain t f directory1 where
    t: "directory = Some t" and found: "Find t pch \<noteq> - 1"
    and f: "new_OpenFile d (Find t pch) = Inr f"
    and d1: "Directory_FetchFrom d f = Inr directory1"
    and rest: "found_along d directory1 (p # ps)"
    by (auto split: option.splits sum.splits)
  have body: "Create_body fs initialSize count pch directory openFileDir freeMap d
      = (Inr (False, directory1, Pointer f, freeMap), d)"
    by (simp add: Create_body_def t found f d1)
  show ?case
    by (simp add: body Cons.IH [OF rest])
qed

lemma Create_all_found:
  assumes "Directory_FetchFrom (disk fs) (directoryFile fs) = Inr directory"
    and "strtok path \<noteq> []"
    and "found_along (disk fs) directory (strtok path)"
  shows "Create fs path initialSize = (Inl UninitializedUse, fs)"
proof -
  from assms(2) obtain pch rest where toks: "strtok path = pch # rest"
    by (cases "strtok path") auto
  show ?thesis
    using assms(1) assms(3)
      Create_while_found [of "disk fs" directory pch rest fs initialSize 0 Uninitialized Uninitialized]
    by (simp add: Create_def toks delete_pointer_def)
qed

text \<open>
  Claim C5. The claim: when the final component of the path exists already, \<open>Create\<close>
  returns failure and the directory on disk is unchanged; after \<^verbatim>\<open>Create("/a.txt", 50)\<close>
  a second \<^verbatim>\<open>Create("/a.txt", 10)\<close> fails and the root directory still lists the one
  entry.

  The code: the second call finds \<^verbatim>\<open>a.txt\<close> in its only iteration, sets \<^verbatim>\<open>success\<close> to
  false and leaves the loop without having written to the disk, so the root directory
  still lists the one entry. Before the \<^verbatim>\<open>return\<close> it executes \<^verbatim>\<open>delete freeMap\<close>; the
  variable \<^verbatim>\<open>freeMap\<close> has no initial value and is assigned only in the branch of a
  component that is not found. The call does not return failure: it ends in the use of a
  pointer that was never assigned.
\<close>

theorem Create_existing_name_deletes_unassigned_freeMap:
  "Create fs0 ''/a.txt'' 50 = (Inr True, fs1) \<and>
   Create fs1 ''/a.txt'' 10 = (Inl UninitializedUse, fs1) \<and>
   List fs1 ''/'' = Inr [(''a.txt'', False)]"
proof -
  have found: "found_along (disk fs1) (Some root1) (strtok ''/a.txt'')"
    by (simp add: strtok_a Find_root1 open_a read_a)
  have "Create fs1 ''/a.txt'' 10 = (Inl UninitializedUse, fs1)"
    using Create_all_found [of fs1 "Some root1" "''/a.txt''" 10] found
    by (simp add: root_fs1 strtok_a)
  moreover have "List fs1 ''/'' = Inr [(''a.txt'', False)]"
    by (simp add: List_def root_fs1 strtok_def root1_def unused_def Directory_List_def)
  ultimately show ?thesis
    by (simp add: Create_a)
qed

section \<open>\<^verbatim>\<open>Open\<close> and \<^verbatim>\<open>Remove\<close> on paths\<close>

text \<open>
  Claim C6. The claim: \<open>Open\<close> returns the handle of the final component, or a null
  handle whenever a component of the path is absent.

  The code: an absent component is skipped and the walk goes on in the same directory;
  the function returns \<^verbatim>\<open>openFileDir\<close>, not the variable it initialises to \<^verbatim>\<open>NULL\<close>. With
  \<^verbatim>\<open>/a.txt\<close> on the disk, \<^verbatim>\<open>Open("/nope/a.txt")\<close> returns the handle of \<^verbatim>\<open>/a.txt\<close>, and
  \<^verbatim>\<open>Open("/nope")\<close> returns a pointer that was never assigned.
\<close>

theorem Open_absent_component:
  "Create fs0 ''/a.txt'' 50 = (Inr True, fs1) \<and>
   Open fs1 ''/a.txt'' = Inr (Pointer (OpenFile aHdr)) \<and>
   Open fs1 ''/nope/a.txt'' = Inr (Pointer (OpenFile aHdr)) \<and>
   Open fs1 ''/nope'' = Inr Uninitialized"
  by (simp add: Create_a Open_def root_fs1 strtok_def Find_root1 open_a read_a)

text \<open>
  Claim C7. The claim: \<open>Remove\<close> resolves the parent directory and the final component
  of the path and removes the file.

  The code: \<open>Remove\<close> looks the whole argument up in the root directory. The file
  created as \<^verbatim>\<open>/a.txt\<close> has the name \<^verbatim>\<open>a.txt\<close> there, so \<^verbatim>\<open>Remove("/a.txt")\<close> returns
  \<open>False\<close> and the file stays.
\<close>

theorem Remove_does_not_resolve_path:
  "Create fs0 ''/a.txt'' 50 = (Inr True, fs1) \<and>
   Remove fs1 ''/a.txt'' = (Inr False, fs1) \<and>
   List fs1 ''/'' = Inr [(''a.txt'', False)]"
proof -
  have "List fs1 ''/'' = Inr [(''a.txt'', False)]"
    by (simp add: List_def root_fs1 strtok_def root1_def unused_def Directory_List_def)
  then show ?thesis
    by (simp add: Create_a Remove_def root_fs1 Find_root1)
qed

section \<open>The table of open files\<close>

declare OpenId_while.simps [simp del]

lemma OpenId_while_scan:
  "\<forall>i. fd < i \<and> i \<le> 21 \<longrightarrow> tbl i \<noteq> Uninitialized \<Longrightarrow>
   OpenId_while tbl p fd =
     (case List.find (\<lambda>i. tbl i = Null) [fd + 1..21] of
        Some k \<Rightarrow> Inr (k, tbl(k := p))
      | None \<Rightarrow> Inr (max fd 21, tbl))"
proof (induction tbl p fd rule: OpenId_while.induct)
  case (1 tbl p fd)
  show ?case
  proof (cases "fd \<le> 20")
    case False
    then show ?thesis by (subst OpenId_while.simps) simp
  next
    case True
    then have up: "[fd + 1..21] = (fd + 1) # [fd + 1 + 1..21]"
      by (subst upto_rec1) simp_all
    have det: "tbl (fd + 1) \<noteq> Uninitialized"
      using "1.prems" True by simp
    show ?thesis
    proof (cases "tbl (fd + 1)")
      case Uninitialized
      with det show ?thesis by simp
    next
      case Null
      then show ?thesis using True by (subst OpenId_while.simps) (simp add: up)
    next
      case (Pointer g)
      have ih: "OpenId_while tbl p (fd + 1) =
          (case List.find (\<lambda>i. tbl i = Null) [fd + 1 + 1..21] of
             Some k \<Rightarrow> Inr (k, tbl(k := p))
           | None \<Rightarrow> Inr (max (fd + 1) 21, tbl))"
        using "1.prems" True Pointer by (intro "1.IH") auto
      have m: "max (fd + 1) 21 = max fd 21"
        using True by simp
      show ?thesis
        using True Pointer
        by (subst OpenId_while.simps) (simp add: up ih m cong: option.case_cong)
    qed
  qed
qed

lemma find_app:
  "List.find P (xs @ ys) = (case List.find P xs of None \<Rightarrow> List.find P ys | Some x \<Rightarrow> Some x)"
  by (induction xs) simp_all

lemma find_lowest:
  "1 \<le> k \<Longrightarrow> k \<le> n \<Longrightarrow> P k \<Longrightarrow> \<forall>j. 1 \<le> j \<and> j < k \<longrightarrow> \<not> P j \<Longrightarrow>
   List.find P [1..n] = Some (k::int)"
proof -
  assume k: "1 \<le> k" "k \<le> n" and P: "P k" and low: "\<forall>j. 1 \<le> j \<and> j < k \<longrightarrow> \<not> P j"
  have split: "[1..n] = [1..k - 1] @ k # [k + 1..n]"
    using k by (simp add: upto_split2 [of 1 k n] upto_rec2 [of 1 k])
  have "List.find P [1..k - 1] = None"
    using low by (auto simp: find_None_iff)
  then show ?thesis
    by (simp add: split find_app P)
qed


lemma OpenId_lowest:
  assumes "Open fs path = Inr file"
    and "\<forall>i. 1 \<le> i \<and> i \<le> 21 \<longrightarrow> OpenTable fs i \<noteq> Uninitialized"
    and "1 \<le> k" "k \<le> 20" "OpenTable fs k = Null"
    and "\<forall>j. 1 \<le> j \<and> j < k \<longrightarrow> OpenTable fs j \<noteq> Null"
  shows "OpenId fs path = Inr (k, fs\<lparr>OpenTable := (OpenTable fs)(k := file)\<rparr>)"
proof -
  have "List.find (\<lambda>i. OpenTable fs i = Null) [1..21] = Some k"
    using assms(3-6) by (intro find_lowest) auto
  then have "OpenId_while (OpenTable fs) file 0 = Inr (k, (OpenTable fs)(k := file))"
    using OpenId_while_scan [of 0 "OpenTable fs" "file"] assms(2) by simp
  then show ?thesis
    using assms(1,4) by (simp add: OpenId_def)
qed



lemma fs1_table [simp]: "OpenTable fs1 = (\<lambda>i. Null)"
  by (simp add: fs1_def fs0_def)


text \<open>
  Claim C10. \<open>OpenId\<close> stores whatever \<open>Open\<close> returned, also a pointer that was never
  assigned, in the lowest free slot and returns its id; \<open>kwrite\<close> and \<open>kread\<close> on that
  id use the stored value as it is.
\<close>

theorem OpenId_binds_unchecked_handle:
  assumes "Open fs path = Inr file"
    and "\<forall>i. 1 \<le> i \<and> i \<le> 21 \<longrightarrow> OpenTable fs i \<noteq> Uninitialized"
    and "1 \<le> k" "k \<le> 20" "OpenTable fs k = Null"
    and "\<forall>j. 1 \<le> j \<and> j < k \<longrightarrow> OpenTable fs j \<noteq> Null"
  shows "OpenId fs path = Inr (k, fs\<lparr>OpenTable := (OpenTable fs)(k := file)\<rparr>) \<and>
         kwrite transfer (fs\<lparr>OpenTable := (OpenTable fs)(k := file)\<rparr>) buffer len k =
           (case deref file of Inl e \<Rightarrow> Inl e | Inr f \<Rightarrow> Inr (transfer f buffer len)) \<and>
         kread transfer (fs\<lparr>OpenTable := (OpenTable fs)(k := file)\<rparr>) buffer len k =
           (case deref file of Inl e \<Rightarrow> Inl e | Inr f \<Rightarrow> Inr (transfer f buffer len))"
  using OpenId_lowest [OF assms] by (simp add: kwrite_def kread_def)

theorem OpenId_binds_unchecked_handle_witness:
  "Open fs0 ''/nope'' = Inr Uninitialized \<and>
   OpenId fs0 ''/nope'' = Inr (1, fs0\<lparr>OpenTable := (\<lambda>i. Null)(1 := Uninitialized)\<rparr>) \<and>
   kwrite (\<lambda>f b n. n) (fs0\<lparr>OpenTable := (\<lambda>i. Null)(1 := Uninitialized)\<rparr>) ''data'' 4 1
     = Inl UninitializedUse \<and>
   kread (\<lambda>f b n. n) (fs0\<lparr>OpenTable := (\<lambda>i. Null)(1 := Uninitialized)\<rparr>) ''data'' 4 1
     = Inl UninitializedUse"
proof -
  have op: "Open fs0 ''/nope'' = Inr Uninitialized"
    by (simp add: Open_def fs0_def root0 strtok_def dir_eval)
  have det: "\<forall>i. 1 \<le> i \<and> i \<le> 21 \<longrightarrow> OpenTable fs0 i \<noteq> Uninitialized"
    by (simp add: fs0_def)
  have tbl: "OpenTable fs0 = (\<lambda>i. Null)"
    by (simp add: fs0_def)
  show ?thesis
    using OpenId_binds_unchecked_handle [OF op det, of 1 "\<lambda>f b n. n" "''data''" 4]
    by (simp add: op tbl deref_def)
qed

section \<open>\<^verbatim>\<open>CreateDir\<close>\<close>

subsection \<open>Allocation from an arbitrary bitmap\<close>

lemma first_clear_Some: "first_clear bm = Some i \<Longrightarrow> i < length bm \<and> \<not> bm ! i"
  by (induction bm arbitrary: i) (auto split: if_splits)

lemma first_clear_None: "first_clear bm = None \<Longrightarrow> NumClear bm = 0"
  by (induction bm) (auto simp: NumClear_def split: if_splits)

lemma NumClear_pos: "i < length bs \<Longrightarrow> \<not> bs ! i \<Longrightarrow> 0 < NumClear bs"
proof -
  assume "i < length bs" "\<not> bs ! i"
  then have "\<exists>x \<in> set bs. \<not> x"
    using nth_mem [of i bs] by blast
  then have "filter (\<lambda>b. \<not> b) bs \<noteq> []"
    unfolding filter_empty_conv by blast
  then show ?thesis by (simp add: NumClear_def)
qed

lemma NumClear_update:
  "i < length bm \<Longrightarrow> \<not> bm ! i \<Longrightarrow> NumClear (bm[i := True]) = NumClear bm - 1"
proof (induction bm arbitrary: i)
  case Nil
  then show ?case by simp
next
  case (Cons b bs)
  show ?case
  proof (cases i)
    case 0
    with Cons.prems show ?thesis by (simp add: NumClear_def)
  next
    case (Suc j)
    with Cons.prems have "NumClear (bs[j := True]) = NumClear bs - 1"
      by (intro Cons.IH) simp_all
    moreover have "0 < NumClear bs"
      using Cons.prems Suc by (intro NumClear_pos [of j]) simp_all
    ultimately show ?thesis using Suc by (simp add: NumClear_def)
  qed
qed

lemma marked_update:
  "i < length bm \<Longrightarrow> marked_sectors (bm[i := True]) = insert (int i) (marked_sectors bm)"
  by (auto simp: marked_sectors_def nth_list_update)

lemma FindAndSet_props:
  assumes "0 < NumClear bm"
  obtains s m1 where "FindAndSet bm = (s, m1)" "0 \<le> s" "s < int (length bm)"
    "s \<notin> marked_sectors bm" "marked_sectors m1 = insert s (marked_sectors bm)" "length m1 = length bm"
    "NumClear m1 = NumClear bm - 1"
proof -
  from assms obtain i where i: "first_clear bm = Some i"
    using first_clear_None [of bm] by (cases "first_clear bm") auto
  from first_clear_Some [OF i] have lt: "i < length bm" and clr: "\<not> bm ! i" by simp_all
  show ?thesis
  proof (rule that [of "int i" "bm[i := True]"])
    show "FindAndSet bm = (int i, bm[i := True])" by (simp add: FindAndSet_def i)
    show "int i \<notin> marked_sectors bm" using clr by (simp add: marked_sectors_def)
    show "marked_sectors (bm[i := True]) = insert (int i) (marked_sectors bm)" using lt by (rule marked_update)
    show "NumClear (bm[i := True]) = NumClear bm - 1" using lt clr by (rule NumClear_update)
  qed (use lt in simp_all)
qed

lemma Allocate_for_props:
  assumes "int n \<le> NumClear bm" "i + n \<le> length (dataSectors h)"
  shows "\<exists>h' m'. Allocate_for i n h bm = Inr (h', m') \<and>
           numBytes h' = numBytes h \<and> numSectors h' = numSectors h \<and>
           length (dataSectors h') = length (dataSectors h) \<and>
           take i (dataSectors h') = take i (dataSectors h) \<and>
           length m' = length bm \<and> NumClear m' = NumClear bm - int n \<and>
           distinct (map (\<lambda>k. dataSectors h' ! k) [i..<i + n]) \<and>
           set (map (\<lambda>k. dataSectors h' ! k) [i..<i + n]) \<inter> marked_sectors bm = {} \<and>
           (\<forall>s \<in> set (map (\<lambda>k. dataSectors h' ! k) [i..<i + n]). 0 \<le> s \<and> s < int (length bm)) \<and>
           marked_sectors m' = marked_sectors bm \<union> set (map (\<lambda>k. dataSectors h' ! k) [i..<i + n])"
  using assms
proof (induction n arbitrary: i h bm)
  case 0
  then show ?case by simp
next
  case (Suc n)
  from Suc.prems have "0 < NumClear bm" by simp
  then obtain s m1 where fs: "FindAndSet bm = (s, m1)" and s0: "0 \<le> s" and sl: "s < int (length bm)"
    and sn: "s \<notin> marked_sectors bm" and mk: "marked_sectors m1 = insert s (marked_sectors bm)"
    and len: "length m1 = length bm" and nc: "NumClear m1 = NumClear bm - 1"
    by (rule FindAndSet_props)
  let ?h = "h\<lparr>dataSectors := (dataSectors h)[i := s]\<rparr>"
  have "\<exists>h' m'. Allocate_for (Suc i) n ?h m1 = Inr (h', m') \<and>
           numBytes h' = numBytes ?h \<and> numSectors h' = numSectors ?h \<and>
           length (dataSectors h') = length (dataSectors ?h) \<and>
           take (Suc i) (dataSectors h') = take (Suc i) (dataSectors ?h) \<and>
           length m' = length m1 \<and> NumClear m' = NumClear m1 - int n \<and>
           distinct (map (\<lambda>k. dataSectors h' ! k) [Suc i..<Suc i + n]) \<and>
           set (map (\<lambda>k. dataSectors h' ! k) [Suc i..<Suc i + n]) \<inter> marked_sectors m1 = {} \<and>
           (\<forall>s \<in> set (map (\<lambda>k. dataSectors h' ! k) [Suc i..<Suc i + n]). 0 \<le> s \<and> s < int (length m1)) \<and>
           marked_sectors m' = marked_sectors m1 \<union> set (map (\<lambda>k. dataSectors h' ! k) [Suc i..<Suc i + n])"
    using Suc.prems nc by (intro Suc.IH) simp_all
  then obtain h' m' where
    al: "Allocate_for (Suc i) n ?h m1 = Inr (h', m')"
    and nb: "numBytes h' = numBytes h" and ns: "numSectors h' = numSectors h"
    and ln: "length (dataSectors h') = length (dataSectors h)"
    and tk: "take (Suc i) (dataSectors h') = take (Suc i) ((dataSectors h)[i := s])"
    and lm: "length m' = length bm" and ncm: "NumClear m' = NumClear m1 - int n"
    and ds: "distinct (map (\<lambda>k. dataSectors h' ! k) [Suc i..<Suc i + n])"
    and dj: "set (map (\<lambda>k. dataSectors h' ! k) [Suc i..<Suc i + n]) \<inter> marked_sectors m1 = {}"
    and rg: "\<forall>s \<in> set (map (\<lambda>k. dataSectors h' ! k) [Suc i..<Suc i + n]). 0 \<le> s \<and> s < int (length bm)"
    and mm: "marked_sectors m' = marked_sectors m1 \<union> set (map (\<lambda>k. dataSectors h' ! k) [Suc i..<Suc i + n])"
    by (auto simp: len)
  have ilt: "i < length (dataSectors h)" using Suc.prems by simp
  have at_i: "dataSectors h' ! i = s"
  proof -
    have "dataSectors h' ! i = take (Suc i) (dataSectors h') ! i" by simp
    also have "\<dots> = take (Suc i) ((dataSectors h)[i := s]) ! i" by (simp only: tk)
    also have "\<dots> = s" using ilt by simp
    finally show ?thesis .
  qed
  have up: "[i..<i + Suc n] = i # [Suc i..<Suc i + n]"
    by (simp add: upt_conv_Cons)
  have mp: "map (\<lambda>k. dataSectors h' ! k) [i..<i + Suc n]
      = s # map (\<lambda>k. dataSectors h' ! k) [Suc i..<Suc i + n]"
    by (simp only: up list.map at_i)
  have tk': "take i (dataSectors h') = take i (dataSectors h)"
  proof -
    have "take i (dataSectors h') = take i (take (Suc i) (dataSectors h'))" by (simp add: min_def)
    also have "\<dots> = take i (take (Suc i) ((dataSectors h)[i := s]))" by (simp only: tk)
    also have "\<dots> = take i (dataSectors h)" by (simp add: min_def)
    finally show ?thesis .
  qed
  have alloc: "Allocate_for i (Suc n) h bm = Inr (h', m')"
    using ilt s0 by (simp add: fs al)
  show ?case
    apply (rule exI [of _ h'], rule exI [of _ m'])
    apply (simp only: mp)
    using alloc nb ns ln tk' lm ncm nc ds dj rg mm mk sn s0 sl
    apply auto
    done
qed

lemma allocated_iff: "allocated bm ss \<longleftrightarrow> set ss \<subseteq> marked_sectors bm"
  by (auto simp: allocated_def marked_sectors_def list_all_iff)

lemma Allocate_directory:
  assumes "10 \<le> NumClear bm" "length bm = NumSectors"
  obtains h m' where
    "Allocate new_FileHeader bm d DirectoryFileSize = (Inr (True, h, m'), d)"
    "good_file h DirectoryFileSize" "length m' = NumSectors"
    "NumClear m' = NumClear bm - 10"
    "set (file_sectors h DirectoryFileSize) \<inter> marked_sectors bm = {}"
    "marked_sectors m' = marked_sectors bm \<union> set (file_sectors h DirectoryFileSize)"
proof -
  let ?h1 = "new_FileHeader\<lparr>numBytes := DirectoryFileSize,
                             numSectors := divRoundUp DirectoryFileSize SectorSize\<rparr>"
  have ns: "divRoundUp DirectoryFileSize SectorSize = 10"
    by (simp add: const_defs arith_defs)
  have "\<exists>h' m'. Allocate_for 0 10 ?h1 bm = Inr (h', m') \<and>
           numBytes h' = numBytes ?h1 \<and> numSectors h' = numSectors ?h1 \<and>
           length (dataSectors h') = length (dataSectors ?h1) \<and>
           take 0 (dataSectors h') = take 0 (dataSectors ?h1) \<and>
           length m' = length bm \<and> NumClear m' = NumClear bm - int 10 \<and>
           distinct (map (\<lambda>k. dataSectors h' ! k) [0..<0 + 10]) \<and>
           set (map (\<lambda>k. dataSectors h' ! k) [0..<0 + 10]) \<inter> marked_sectors bm = {} \<and>
           (\<forall>s \<in> set (map (\<lambda>k. dataSectors h' ! k) [0..<0 + 10]). 0 \<le> s \<and> s < int (length bm)) \<and>
           marked_sectors m' = marked_sectors bm \<union> set (map (\<lambda>k. dataSectors h' ! k) [0..<0 + 10])"
    using assms(1) by (intro Allocate_for_props) (simp_all add: new_FileHeader_def NumDirect_def)
  then obtain h m' where
    al: "Allocate_for 0 10 ?h1 bm = Inr (h, m')"
    and nb: "numBytes h = DirectoryFileSize"
    and ln: "length (dataSectors h) = NumDirect"
    and lm: "length m' = length bm" and nc: "NumClear m' = NumClear bm - 10"
    and ds: "distinct (map (\<lambda>k. dataSectors h ! k) [0..<10])"
    and dj: "set (map (\<lambda>k. dataSectors h ! k) [0..<10]) \<inter> marked_sectors bm = {}"
    and rg: "\<forall>s \<in> set (map (\<lambda>k. dataSectors h ! k) [0..<10]). 0 \<le> s \<and> s < int (length bm)"
    and mm: "marked_sectors m' = marked_sectors bm \<union> set (map (\<lambda>k. dataSectors h ! k) [0..<10])"
    by (auto simp: new_FileHeader_def)
  have span: "transfer_span h DirectoryFileSize = 10"
    by (simp add: transfer_span_def nb) (simp add: const_defs arith_defs)
  have secs: "file_sectors h DirectoryFileSize = map (\<lambda>k. dataSectors h ! k) [0..<10]"
    by (simp only: file_sectors_def span)
  show ?thesis
  proof (rule that [of h m'])
    show "Allocate new_FileHeader bm d DirectoryFileSize = (Inr (True, h, m'), d)"
      using assms(1) al
      by (subst Allocate.simps) (simp add: Let_def ns, simp add: const_defs)
    show "good_file h DirectoryFileSize"
      unfolding good_file_def secs span
      using nb ln ds rg assms(2)
      by (simp add: list_all_iff) (simp add: const_defs)
    show "length m' = NumSectors" using lm assms(2) by simp
    show "NumClear m' = NumClear bm - 10" by (rule nc)
    show "set (file_sectors h DirectoryFileSize) \<inter> marked_sectors bm = {}"
      unfolding secs by (rule dj)
    show "marked_sectors m' = marked_sectors bm \<union> set (file_sectors h DirectoryFileSize)"
      unfolding secs by (rule mm)
  qed
qed

lemma free_slot_Some: "free_slot t = Some i \<Longrightarrow> i < length t \<and> \<not> inUse (t ! i)"
  by (induction t arbitrary: i) (auto split: if_splits)

lemma FindIndex_update:
  "FindIndex t c = None \<Longrightarrow> i < length t \<Longrightarrow> inUse e \<Longrightarrow> name e = c \<Longrightarrow>
   FindIndex (t[i := e]) c = Some i"
proof (induction t arbitrary: i)
  case Nil
  then show ?case by simp
next
  case (Cons a t)
  then show ?case by (cases i) (auto split: if_splits)
qed

lemma AddDir_missing:
  assumes "FindIndex t c = None" "free_slot t \<noteq> None"
  obtains i where
    "AddDir t c s = (True, t[i := \<lparr>inUse = True, isDir = True, sector = s, name = c\<rparr>])"
    "FindIndex (t[i := \<lparr>inUse = True, isDir = True, sector = s, name = c\<rparr>]) c = Some i"
    "i < length t"
proof -
  from assms(2) obtain i where i: "free_slot t = Some i" by auto
  from free_slot_Some [OF i] have lt: "i < length t" by simp
  show ?thesis
  proof (rule that [of i])
    show "AddDir t c s = (True, t[i := \<lparr>inUse = True, isDir = True, sector = s, name = c\<rparr>])"
      by (simp add: AddDir_def add_entry_def assms(1) i)
    show "FindIndex (t[i := \<lparr>inUse = True, isDir = True, sector = s, name = c\<rparr>]) c = Some i"
      using assms(1) lt by (intro FindIndex_update) simp_all
    show "i < length t" by (rule lt)
  qed
qed

lemma Find_missing: "FindIndex t c = None \<Longrightarrow> Find t c = - 1"
  by (simp add: Find_def)

lemma dir_stateD:
  assumes "dir_state fs d f freeMap t"
  shows "good_file (hdr (freeMapFile fs)) FreeMapFileSize"
    and "good_file (hdr f) DirectoryFileSize"
    and "Bitmap_FetchFrom d (freeMapFile fs) = Inr freeMap"
    and "length freeMap = NumSectors"
    and "Directory_FetchFrom d f = Inr (Some t)"
    and "set (file_sectors (hdr (freeMapFile fs)) FreeMapFileSize) \<subseteq> marked_sectors freeMap"
    and "set (file_sectors (hdr f) DirectoryFileSize) \<subseteq> marked_sectors freeMap"
    and "set (file_sectors (hdr (freeMapFile fs)) FreeMapFileSize)
           \<inter> set (file_sectors (hdr f) DirectoryFileSize) = {}"
  using assms by (auto simp: dir_state_def allocated_iff list_all_iff)

lemma dir_stateI:
  assumes "good_file (hdr (freeMapFile fs)) FreeMapFileSize"
    and "good_file (hdr f) DirectoryFileSize"
    and "Bitmap_FetchFrom d (freeMapFile fs) = Inr freeMap"
    and "length freeMap = NumSectors"
    and "Directory_FetchFrom d f = Inr (Some t)"
    and "set (file_sectors (hdr (freeMapFile fs)) FreeMapFileSize) \<subseteq> marked_sectors freeMap"
    and "set (file_sectors (hdr f) DirectoryFileSize) \<subseteq> marked_sectors freeMap"
    and "set (file_sectors (hdr (freeMapFile fs)) FreeMapFileSize)
           \<inter> set (file_sectors (hdr f) DirectoryFileSize) = {}"
  shows "dir_state fs d f freeMap t"
  using assms by (auto simp: dir_state_def allocated_iff list_all_iff)

lemma Directory_FetchFrom_table:
  "ReadAt d f DirectoryFileSize = Inr (Some (TableImage t)) \<Longrightarrow>
   Directory_FetchFrom d f = Inr (Some t)"
  by (simp add: Directory_FetchFrom_def)

lemma Bitmap_FetchFrom_bits:
  "ReadAt d f FreeMapFileSize = Inr (Some (BitsImage m)) \<Longrightarrow> Bitmap_FetchFrom d f = Inr m"
  by (simp add: Bitmap_FetchFrom_def)

lemma WriteAt_good_file:
  "good_file (hdr f) len \<Longrightarrow> WriteAt d f (Some b) len = (Inr (), store d (hdr f) len b)"
  by (cases f) (simp add: WriteAt_good)

lemma ReadAt_store_same_file:
  "good_file (hdr f) len \<Longrightarrow> 0 < len \<Longrightarrow> ReadAt (store d (hdr f) len b) f len = Inr (Some b)"
  by (cases f) (simp add: ReadAt_store_same)

lemma ReadAt_store_other_file:
  "good_file (hdr f) len \<Longrightarrow> set (file_sectors (hdr f) len) \<inter> set (file_sectors h' len') = {} \<Longrightarrow>
   ReadAt (store d h' len' b) f len = ReadAt d f len"
  by (cases f) (simp add: ReadAt_store_other)

lemma CreateDir_body_creates:
  assumes st: "dir_state fs d f freeMap t"
    and df: "dir_file fs count openFileDir = Inr f"
    and miss: "FindIndex t c = None" and slot: "free_slot t \<noteq> None"
    and space: "11 \<le> NumClear freeMap"
  obtains g m2 t1 i s d' where
    "CreateDir_body fs count c openFileDir newDir d = (Inr (True, Pointer g, Deleted), d')"
    "dir_state fs d' g m2 (new_Directory NumDirEntries)"
    "Directory_FetchFrom d' f = Inr (Some t1)" "FindIndex t1 c = Some i"
    "isDir (t1 ! i)" "sector (t1 ! i) = s" "new_OpenFile d' s = Inr g"
    "NumClear m2 = NumClear freeMap - 11"
    "marked_sectors freeMap \<subseteq> marked_sectors m2" "s \<in> marked_sectors m2" "s \<notin> marked_sectors freeMap"
    "set (file_sectors (hdr g) DirectoryFileSize) \<inter> marked_sectors freeMap = {}"
    "s \<notin> set (file_sectors (hdr g) DirectoryFileSize)"
    "\<forall>x. x \<in> marked_sectors freeMap \<and> x \<notin> set (file_sectors (hdr f) DirectoryFileSize) \<and>
         x \<notin> set (file_sectors (hdr (freeMapFile fs)) FreeMapFileSize) \<longrightarrow> d' x = d x"
proof -
  let ?hm = "hdr (freeMapFile fs)" and ?hf = "hdr f"
  let ?Sm = "set (file_sectors ?hm FreeMapFileSize)"
  let ?Sf = "set (file_sectors ?hf DirectoryFileSize)"
  have mf: "freeMapFile fs = OpenFile ?hm" and ff: "f = OpenFile ?hf" by simp_all
  note D = dir_stateD [OF st]
  from space have "0 < NumClear freeMap" by simp
  then obtain s m1 where fs: "FindAndSet freeMap = (s, m1)" and s0: "0 \<le> s"
    and sl: "s < int (length freeMap)" and sn: "s \<notin> marked_sectors freeMap"
    and mk1: "marked_sectors m1 = insert s (marked_sectors freeMap)" and len1: "length m1 = length freeMap"
    and nc1: "NumClear m1 = NumClear freeMap - 1"
    by (rule FindAndSet_props)
  let ?e = "\<lparr>inUse = True, isDir = True, sector = s, name = c\<rparr>"
  from miss slot obtain i where add: "AddDir t c s = (True, t[i := ?e])"
    and fi: "FindIndex (t[i := ?e]) c = Some i" and il: "i < length t"
    by (rule AddDir_missing)
  let ?t1 = "t[i := ?e]"
  have "10 \<le> NumClear m1" using space nc1 by simp
  moreover have "length m1 = NumSectors" using len1 D(4) by simp
  ultimately obtain h m2 where
    al: "Allocate new_FileHeader m1 d DirectoryFileSize = (Inr (True, h, m2), d)"
    and gh: "good_file h DirectoryFileSize" and len2: "length m2 = NumSectors"
    and nc2: "NumClear m2 = NumClear m1 - 10"
    and dj1: "set (file_sectors h DirectoryFileSize) \<inter> marked_sectors m1 = {}"
    and mk2: "marked_sectors m2 = marked_sectors m1 \<union> set (file_sectors h DirectoryFileSize)"
    by (rule Allocate_directory)
  let ?Sh = "set (file_sectors h DirectoryFileSize)"
  have s_Sh: "s \<notin> ?Sh" and Sh_free: "?Sh \<inter> marked_sectors freeMap = {}"
    using dj1 mk1 by auto
  have s_Sm: "s \<notin> ?Sm" and s_Sf: "s \<notin> ?Sf"
    using sn D(6) D(7) by auto
  have Sh_Sm: "?Sm \<inter> ?Sh = {}" and Sh_Sf: "?Sf \<inter> ?Sh = {}"
    using Sh_free D(6) D(7) by auto
  have srange: "s < int NumSectors" using sl D(4) by simp
  let ?d1 = "d(s := HeaderData h)"
  let ?d2 = "store ?d1 ?hf DirectoryFileSize (TableImage ?t1)"
  let ?d3 = "store ?d2 ?hm FreeMapFileSize (BitsImage m2)"
  let ?d4 = "store ?d3 h DirectoryFileSize (TableImage (new_Directory NumDirEntries))"
  have w1: "WriteBack h d s = (Inr (), ?d1)"
    using s0 srange by (simp add: WriteBack_def WriteSector_def)
  have w2: "Directory_WriteBack ?d1 f (Some ?t1) = (Inr (), ?d2)"
    using D(2) by (simp add: Directory_WriteBack_def WriteAt_good_file)
  have w3: "Bitmap_WriteBack ?d2 (freeMapFile fs) m2 = (Inr (), ?d3)"
    using D(1) by (simp add: Bitmap_WriteBack_def WriteAt_good_file)
  have at_s: "?d3 s = HeaderData h"
    using s_Sm s_Sf by (simp add: store_other)
  have op: "new_OpenFile ?d3 s = Inr (OpenFile h)"
    using s0 srange at_s by (simp add: new_OpenFile_def FetchFrom_def ReadSector_def)
  have w4: "Directory_WriteBack ?d3 (OpenFile h) (Some (new_Directory NumDirEntries)) = (Inr (), ?d4)"
    using WriteAt_good [OF gh] by (simp add: Directory_WriteBack_def)
  have flush: "CreateDir_flush fs count openFileDir h s ?t1 m2 d = (Inr (OpenFile h), ?d4)"
    by (simp add: CreateDir_flush_def Create_flush_def w1 df w2 w3 op w4)
  have body: "CreateDir_body fs count c openFileDir newDir d
      = (Inr (True, Pointer (OpenFile h), Deleted), ?d4)"
    using s0
    by (simp add: CreateDir_body_def df D(5) Find_missing [OF miss] D(3) fs add al flush)
  have rd_h: "ReadAt ?d4 (OpenFile h) DirectoryFileSize
      = Inr (Some (TableImage (new_Directory NumDirEntries)))"
    using gh by (simp add: ReadAt_store_same)
  have rd_m: "ReadAt ?d4 (freeMapFile fs) FreeMapFileSize = Inr (Some (BitsImage m2))"
    using D(1) Sh_Sm by (simp add: ReadAt_store_other_file ReadAt_store_same_file)
  have rd_f: "ReadAt ?d4 f DirectoryFileSize = Inr (Some (TableImage ?t1))"
  proof -
    have "ReadAt ?d4 f DirectoryFileSize = ReadAt ?d3 f DirectoryFileSize"
      using D(2) Sh_Sf by (rule ReadAt_store_other_file)
    also have "\<dots> = ReadAt ?d2 f DirectoryFileSize"
      using D(2) D(8) by (intro ReadAt_store_other_file) auto
    also have "\<dots> = Inr (Some (TableImage ?t1))"
      using D(2) by (simp add: ReadAt_store_same_file)
    finally show ?thesis .
  qed
  have at_s4: "?d4 s = HeaderData h"
    using s_Sh at_s by (simp add: store_other)
  have mono: "marked_sectors freeMap \<subseteq> marked_sectors m2"
    using mk1 mk2 by auto
  show ?thesis
  proof (rule that [of "OpenFile h" ?d4 m2 ?t1 i s])
    show "CreateDir_body fs count c openFileDir newDir d
        = (Inr (True, Pointer (OpenFile h), Deleted), ?d4)"
      by (rule body)
    show "dir_state fs ?d4 (OpenFile h) m2 (new_Directory NumDirEntries)"
    proof (rule dir_stateI)
      show "Bitmap_FetchFrom ?d4 (freeMapFile fs) = Inr m2"
        using rd_m by (simp add: Bitmap_FetchFrom_def)
      show "Directory_FetchFrom ?d4 (OpenFile h) = Inr (Some (new_Directory NumDirEntries))"
        using rd_h by (rule Directory_FetchFrom_table)
      show "?Sm \<subseteq> marked_sectors m2" using D(6) mono by blast
      show "set (file_sectors (hdr (OpenFile h)) DirectoryFileSize) \<subseteq> marked_sectors m2"
        using mk2 by simp
      show "?Sm \<inter> set (file_sectors (hdr (OpenFile h)) DirectoryFileSize) = {}"
        using Sh_Sm by simp
    qed (use D(1) gh len2 in simp_all)
    show "Directory_FetchFrom ?d4 f = Inr (Some ?t1)"
      using rd_f by (simp add: Directory_FetchFrom_def)
    show "FindIndex ?t1 c = Some i" by (rule fi)
    show "isDir (?t1 ! i)" using il by simp
    show "sector (?t1 ! i) = s" using il by simp
    show "new_OpenFile ?d4 s = Inr (OpenFile h)"
      using s0 srange at_s4 by (simp add: new_OpenFile_def FetchFrom_def ReadSector_def)
    show "NumClear m2 = NumClear freeMap - 11" using nc1 nc2 by simp
    show "marked_sectors freeMap \<subseteq> marked_sectors m2" by (rule mono)
    show "s \<in> marked_sectors m2" using mk1 mk2 by simp
    show "s \<notin> marked_sectors freeMap" by (rule sn)
    show "set (file_sectors (hdr (OpenFile h)) DirectoryFileSize) \<inter> marked_sectors freeMap = {}"
      using Sh_free by simp
    show "s \<notin> set (file_sectors (hdr (OpenFile h)) DirectoryFileSize)"
      using s_Sh by simp
    show "\<forall>x. x \<in> marked_sectors freeMap \<and> x \<notin> ?Sf \<and> x \<notin> ?Sm \<longrightarrow> ?d4 x = d x"
    proof (intro allI impI)
      fix x assume x: "x \<in> marked_sectors freeMap \<and> x \<notin> ?Sf \<and> x \<notin> ?Sm"
      then have "x \<notin> ?Sh" "x \<noteq> s" using Sh_free sn by auto
      with x show "?d4 x = d x" by (simp add: store_other)
    qed
  qed
qed

lemma ReadAt_cong_file:
  "good_file (hdr f) len \<Longrightarrow> (\<And>s. s \<in> set (file_sectors (hdr f) len) \<Longrightarrow> d' s = d s) \<Longrightarrow>
   ReadAt d' f len = ReadAt d f len"
proof (cases f)
  case (OpenFile h)
  assume "good_file (hdr f) len" and "\<And>s. s \<in> set (file_sectors (hdr f) len) \<Longrightarrow> d' s = d s"
  then show ?thesis
    unfolding OpenFile by (intro ReadAt_cong) simp_all
qed

lemma new_Directory_fresh:
  "FindIndex (new_Directory NumDirEntries) c = None" "free_slot (new_Directory NumDirEntries) \<noteq> None"
  by (simp_all add: new_Directory_def NumDirEntries_def FindIndex_unused free_slot_unused)

lemma CreateDir_while_creates:
  assumes "dir_state fs d f freeMap t"
    and "dir_file fs count openFileDir = Inr f"
    and "FindIndex t c = None" and "free_slot t \<noteq> None"
    and "11 * int (length (c # cs)) \<le> NumClear freeMap"
  shows "\<exists>d' m'. CreateDir_while fs count (c # cs) success openFileDir newDir d = (Inr True, d') \<and>
           nested_dirs d' f (c # cs) \<and>
           Bitmap_FetchFrom d' (freeMapFile fs) = Inr m' \<and>
           NumClear m' = NumClear freeMap - 11 * int (length (c # cs)) \<and>
           (\<forall>x. x \<in> marked_sectors freeMap \<and> x \<notin> set (file_sectors (hdr f) DirectoryFileSize) \<and>
                x \<notin> set (file_sectors (hdr (freeMapFile fs)) FreeMapFileSize) \<longrightarrow> d' x = d x)"
  using assms
proof (induction cs arbitrary: c d f freeMap t count openFileDir newDir success)
  case Nil
  from Nil.prems(5) have space: "11 \<le> NumClear freeMap" by simp
  from Nil.prems(1-4) space obtain g m2 t1 i s d' where
    body: "CreateDir_body fs count c openFileDir newDir d = (Inr (True, Pointer g, Deleted), d')"
    and st': "dir_state fs d' g m2 (new_Directory NumDirEntries)"
    and rf: "Directory_FetchFrom d' f = Inr (Some t1)" and fi: "FindIndex t1 c = Some i"
    and isd: "isDir (t1 ! i)" and sec: "sector (t1 ! i) = s" and op: "new_OpenFile d' s = Inr g"
    and nc: "NumClear m2 = NumClear freeMap - 11"
    and frame: "\<forall>x. x \<in> marked_sectors freeMap \<and> x \<notin> set (file_sectors (hdr f) DirectoryFileSize) \<and>
         x \<notin> set (file_sectors (hdr (freeMapFile fs)) FreeMapFileSize) \<longrightarrow> d' x = d x"
    by (rule CreateDir_body_creates)
  note D' = dir_stateD [OF st']
  have run: "CreateDir_while fs count [c] success openFileDir newDir d = (Inr True, d')"
    by (simp add: body delete_pointer_def)
  have nest: "nested_dirs d' f [c]"
    by (simp add: rf fi isd sec op D'(5))
  have nc0: "NumClear m2 = NumClear freeMap - 11 * int (length [c])"
    using nc by simp
  show ?case
    apply (rule exI [of _ d'], rule exI [of _ m2])
    using run nest D'(3) nc0 frame apply (intro conjI)
        apply assumption+
    done
next
  case (Cons c2 cs)
  from Cons.prems(5) have space: "11 \<le> NumClear freeMap" by simp
  from Cons.prems(1-4) space obtain g m2 t1 i s d1 where
    body: "CreateDir_body fs count c openFileDir newDir d = (Inr (True, Pointer g, Deleted), d1)"
    and st1: "dir_state fs d1 g m2 (new_Directory NumDirEntries)"
    and rf: "Directory_FetchFrom d1 f = Inr (Some t1)" and fi: "FindIndex t1 c = Some i"
    and isd: "isDir (t1 ! i)" and sec: "sector (t1 ! i) = s" and op: "new_OpenFile d1 s = Inr g"
    and nc: "NumClear m2 = NumClear freeMap - 11"
    and mono: "marked_sectors freeMap \<subseteq> marked_sectors m2" and sm: "s \<in> marked_sectors m2"
    and sn: "s \<notin> marked_sectors freeMap"
    and gfree: "set (file_sectors (hdr g) DirectoryFileSize) \<inter> marked_sectors freeMap = {}"
    and sg: "s \<notin> set (file_sectors (hdr g) DirectoryFileSize)"
    and frame1: "\<forall>x. x \<in> marked_sectors freeMap \<and> x \<notin> set (file_sectors (hdr f) DirectoryFileSize) \<and>
         x \<notin> set (file_sectors (hdr (freeMapFile fs)) FreeMapFileSize) \<longrightarrow> d1 x = d x"
    by (rule CreateDir_body_creates)
  note D = dir_stateD [OF Cons.prems(1)]
  let ?Sm = "set (file_sectors (hdr (freeMapFile fs)) FreeMapFileSize)"
  let ?Sf = "set (file_sectors (hdr f) DirectoryFileSize)"
  let ?Sg = "set (file_sectors (hdr g) DirectoryFileSize)"
  have df': "dir_file fs (Suc count) (Pointer g) = Inr g"
    by (simp add: dir_file_def deref_def)
  have space': "11 * int (length (c2 # cs)) \<le> NumClear m2"
    using Cons.prems(5) nc by simp
  have "\<exists>d' m'. CreateDir_while fs (Suc count) (c2 # cs) (Some True) (Pointer g) Deleted d1
              = (Inr True, d') \<and>
           nested_dirs d' g (c2 # cs) \<and>
           Bitmap_FetchFrom d' (freeMapFile fs) = Inr m' \<and>
           NumClear m' = NumClear m2 - 11 * int (length (c2 # cs)) \<and>
           (\<forall>x. x \<in> marked_sectors m2 \<and> x \<notin> ?Sg \<and> x \<notin> ?Sm \<longrightarrow> d' x = d1 x)"
    by (rule Cons.IH [OF st1 df' new_Directory_fresh space'])
  then obtain d2 m' where
    run: "CreateDir_while fs (Suc count) (c2 # cs) (Some True) (Pointer g) Deleted d1 = (Inr True, d2)"
    and nest: "nested_dirs d2 g (c2 # cs)"
    and bm: "Bitmap_FetchFrom d2 (freeMapFile fs) = Inr m'"
    and nc': "NumClear m' = NumClear m2 - 11 * int (length (c2 # cs))"
    and frame2: "\<forall>x. x \<in> marked_sectors m2 \<and> x \<notin> ?Sg \<and> x \<notin> ?Sm \<longrightarrow> d2 x = d1 x"
    by blast
  have keep_f: "d2 x = d1 x" if "x \<in> ?Sf" for x
  proof -
    from that D(7) have "x \<in> marked_sectors freeMap" by blast
    moreover from this gfree have "x \<notin> ?Sg" by blast
    moreover from that D(8) have "x \<notin> ?Sm" by blast
    ultimately show ?thesis using frame2 mono by blast
  qed
  have rf2: "Directory_FetchFrom d2 f = Inr (Some t1)"
  proof -
    have "ReadAt d2 f DirectoryFileSize = ReadAt d1 f DirectoryFileSize"
      using D(2) keep_f by (rule ReadAt_cong_file)
    then show ?thesis using rf by (simp add: Directory_FetchFrom_def)
  qed
  have "s \<notin> ?Sm" using sn D(6) by blast
  then have "d2 s = d1 s" using frame2 sm sg by blast
  then have "new_OpenFile d2 s = new_OpenFile d1 s"
    by (simp add: new_OpenFile_def FetchFrom_def ReadSector_def)
  then have op2: "new_OpenFile d2 s = Inr g"
    using op by simp
  have "CreateDir_while fs count (c # c2 # cs) success openFileDir newDir d
      = CreateDir_while fs (Suc count) (c2 # cs) (Some True) (Pointer g) Deleted d1"
    by (simp only: CreateDir_while.simps(2) [of fs count c "c2 # cs"] body prod.case sum.case)
  then have run2: "CreateDir_while fs count (c # c2 # cs) success openFileDir newDir d = (Inr True, d2)"
    by (simp only: run)
  have nest2: "nested_dirs d2 f (c # c2 # cs)"
    using nest by (simp add: rf2 fi isd sec op2)
  have nc2: "NumClear m' = NumClear freeMap - 11 * int (length (c # c2 # cs))"
    using nc nc' by simp
  have frame: "\<forall>x. x \<in> marked_sectors freeMap \<and> x \<notin> ?Sf \<and> x \<notin> ?Sm \<longrightarrow> d2 x = d x"
  proof (intro allI impI)
    fix x assume x: "x \<in> marked_sectors freeMap \<and> x \<notin> ?Sf \<and> x \<notin> ?Sm"
    then have "x \<in> marked_sectors m2" "x \<notin> ?Sg" using mono gfree by auto
    with x frame2 have "d2 x = d1 x" by blast
    moreover from x frame1 have "d1 x = d x" by blast
    ultimately show "d2 x = d x" by simp
  qed
  show ?case
    apply (rule exI [of _ d2], rule exI [of _ m'])
    using run2 nest2 bm nc2 frame apply (intro conjI)
        apply assumption+
    done
qed

lemma CreateDir_while_walk:
  assumes "reach d f pre = Some g" "pre \<noteq> []" "dir_file fs count openFileDir = Inr f"
  shows "CreateDir_while fs count (pre @ rest) success openFileDir newDir d
       = CreateDir_while fs (count + length pre) rest (Some False) (Pointer g) newDir d"
  using assms
proof (induction pre arbitrary: f count openFileDir success)
  case Nil
  then show ?case by simp
next
  case (Cons c pre)
  from Cons.prems(1) obtain t f1 where
    rd: "Directory_FetchFrom d f = Inr (Some t)" and fnd: "Find t c \<noteq> - 1"
    and op: "new_OpenFile d (Find t c) = Inr f1" and rest: "reach d f1 pre = Some g"
    by (auto split: sum.splits option.splits if_splits)
  have body: "CreateDir_body fs count c openFileDir newDir d = (Inr (False, Pointer f1, newDir), d)"
    by (simp add: CreateDir_body_def Cons.prems(3) rd fnd op)
  show ?case
  proof (cases pre)
    case Nil
    with rest have "f1 = g" by simp
    with Nil show ?thesis by (simp add: body)
  next
    case (Cons c' pre')
    have "CreateDir_while fs (Suc count) (pre @ rest) (Some False) (Pointer f1) newDir d
        = CreateDir_while fs (Suc count + length pre) rest (Some False) (Pointer g) newDir d"
      using rest Cons by (intro Cons.IH) (simp_all add: dir_file_def deref_def)
    then show ?thesis by (simp add: body)
  qed
qed

text \<open>
  Claim C8. \<^verbatim>\<open>CreateDir\<close> walks the path through the components that exist; from the
  first missing component on, every component (not only the last) is created as a new,
  empty directory file, linked into its parent and written to its own sectors in the
  same iteration. Provided the directory reached and the bitmap file are intact (their
  sectors marked in the bitmap and distinct), the directory has a free slot and the
  bitmap has 11 clear bits for every component to create, the call returns \<open>True\<close>,
  on the resulting disk the created components form a chain of nested directories that
  ends in an empty one, and the bitmap on disk has 11 clear bits fewer per component.
\<close>

theorem CreateDir_creates_missing_directories:
  assumes "strtok path = pre @ c # cs"
    and "reach (disk fs) (directoryFile fs) pre = Some f"
    and "dir_state fs (disk fs) f freeMap t"
    and "FindIndex t c = None" and "free_slot t \<noteq> None"
    and "11 * int (length (c # cs)) \<le> NumClear freeMap"
  shows "case CreateDir fs path of
           (r, fs') \<Rightarrow>
              r = Inr True \<and> nested_dirs (disk fs') f (c # cs) \<and>
              (case Bitmap_FetchFrom (disk fs') (freeMapFile fs') of
                 Inl e \<Rightarrow> False
               | Inr m' \<Rightarrow> NumClear m' = NumClear freeMap - 11 * int (length (c # cs)))"
proof -
  have "\<exists>count openFileDir success.
          CreateDir_while fs 0 (pre @ c # cs) None Uninitialized NeverAssigned (disk fs)
            = CreateDir_while fs count (c # cs) success openFileDir NeverAssigned (disk fs) \<and>
          dir_file fs count openFileDir = Inr f"
  proof (cases pre)
    case Nil
    with assms(2) have "f = directoryFile fs" by simp
    with Nil show ?thesis
      by (intro exI [of _ 0] exI [of _ Uninitialized] exI [of _ None]) (simp add: dir_file_def)
  next
    case (Cons a list)
    then have ne: "pre \<noteq> []" by simp
    have "dir_file fs 0 Uninitialized = Inr (directoryFile fs)" by (simp add: dir_file_def)
    from CreateDir_while_walk [OF assms(2) ne this, of "c # cs" None NeverAssigned]
    show ?thesis using ne
      by (intro exI [of _ "0 + length pre"] exI [of _ "Pointer f"] exI [of _ "Some False"])
        (simp add: dir_file_def deref_def)
  qed
  then obtain count openFileDir success where
    eq: "CreateDir_while fs 0 (pre @ c # cs) None Uninitialized NeverAssigned (disk fs)
           = CreateDir_while fs count (c # cs) success openFileDir NeverAssigned (disk fs)"
    and df: "dir_file fs count openFileDir = Inr f"
    by blast
  from CreateDir_while_creates [OF assms(3) df assms(4) assms(5) assms(6), of success NeverAssigned]
  obtain d' m' where
    run: "CreateDir_while fs count (c # cs) success openFileDir NeverAssigned (disk fs) = (Inr True, d')"
    and nest: "nested_dirs d' f (c # cs)"
    and bm: "Bitmap_FetchFrom d' (freeMapFile fs) = Inr m'"
    and nc: "NumClear m' = NumClear freeMap - 11 * int (length (c # cs))"
    by blast
  have "CreateDir fs path = (Inr True, fs\<lparr>disk := d'\<rparr>)"
    by (simp only: CreateDir_def assms(1) eq run prod.case)
  then show ?thesis
    using nest bm nc by (simp del: nested_dirs.simps)
qed

text \<open>
  The scenario of the claim: on the formatted disk \<^verbatim>\<open>CreateDir("/x/y/z")\<close> creates three
  nested directories and takes 33 sectors.
\<close>

lemma dir_state_fs0:
  "dir_state fs0 (disk fs0) (directoryFile fs0) (first_marked 13) (new_Directory NumDirEntries)"
proof -
  have a: "allocated (first_marked 13) [2]"
    by (simp add: allocated_def length_first_marked nth_first_marked below_NumSectors)
  have b: "allocated (first_marked 13) (map int [3..<13])"
    by (simp add: allocated_def length_first_marked nth_first_marked below_NumSectors list_all_iff)
  show ?thesis
    using a b
    by (simp add: dir_state_def fs0_def root0 map0 length_first_marked below_NumSectors)
qed

theorem CreateDir_creates_missing_directories_witness:
  "case CreateDir fs0 ''/x/y/z'' of
     (r, fs') \<Rightarrow>
        r = Inr True \<and>
        nested_dirs (disk fs') (directoryFile fs') [''x'', ''y'', ''z''] \<and>
        (case Bitmap_FetchFrom (disk fs') (freeMapFile fs') of
           Inl e \<Rightarrow> False
         | Inr m' \<Rightarrow> NumClear m' = NumClear (first_marked 13) - 33)"
proof -
  have toks: "strtok ''/x/y/z'' = [] @ ''x'' # [''y'', ''z'']"
    by (simp add: strtok_def)
  have start: "reach (disk fs0) (directoryFile fs0) [] = Some (directoryFile fs0)"
    by simp
  have space: "11 * int (length (''x'' # [''y'', ''z''])) \<le> NumClear (first_marked 13)"
    by (simp add: NumClear_first_marked below_NumSectors NumSectors_def)
  have keep: "directoryFile (snd (CreateDir fs0 ''/x/y/z'')) = directoryFile fs0"
    by (simp add: CreateDir_def split: prod.splits)
  show ?thesis
    using CreateDir_creates_missing_directories
      [OF toks start dir_state_fs0 new_Directory_fresh space] keep
    by (simp split: prod.splits del: nested_dirs.simps cong: sum.case_cong)
qed

section \<open>Further properties of the operations\<close>

text \<open>
  Within the direct span \<open>ByteToSector\<close> is the array lookup; above it, a call that
  returns never yields a sector.
\<close>

lemma thresholds_ordered: "0 < MaxFileSize" "MaxFileSize < MaxFileSize2" "MaxFileSize2 < MaxFileSize3"
  by (simp_all add: const_defs)

lemma ByteToSector_direct:
  "numBytes h \<le> MaxFileSize \<Longrightarrow> ByteToSector d h offset = Some (sector_of h offset)"
  using thresholds_ordered
  by (subst ByteToSector.simps) (simp add: Let_def sector_of_def)

lemma bind_falls_off_end:
  "Option.bind x falls_off_end = Some r \<Longrightarrow> \<exists>e. r = Inl e"
  by (cases x) (auto simp: falls_off_end_def split: sum.splits)

lemma ByteToSector_indirect:
  assumes "MaxFileSize < numBytes h" and "ByteToSector d h offset = Some r"
  shows "\<exists>e. r = Inl e"
proof -
  have "ByteToSector d h offset =
     (let NumSector = c_div offset SectorSize in
      if numBytes h > MaxFileSize3 then
        (let which = divRoundDown offset MaxFileSize3 in
         case child_header d h which of
           Inl e \<Rightarrow> Some (Inl e)
         | Inr next \<Rightarrow>
             Option.bind (ByteToSector d next (offset - which * MaxFileSize3)) falls_off_end)
      else if numBytes h > MaxFileSize2 then
        (let which = divRoundDown offset MaxFileSize2 in
         case child_header d h which of
           Inl e \<Rightarrow> Some (Inl e)
         | Inr next \<Rightarrow>
             Option.bind (ByteToSector d next (offset - which * MaxFileSize2)) falls_off_end)
      else if numBytes h > MaxFileSize then
        (let which = divRoundDown offset MaxFileSize in
         case child_header d h which of
           Inl e \<Rightarrow> Some (Inl e)
         | Inr next \<Rightarrow>
             Option.bind (ByteToSector d next (offset - which * MaxFileSize)) falls_off_end)
      else Some (array_get (dataSectors h) NumSector))"
    by (rule ByteToSector.simps)
  with assms show ?thesis
    by (auto simp: Let_def split: if_splits sum.splits dest: bind_falls_off_end)
qed

text \<open>\<open>Open\<close> never returns a null pointer.\<close>

lemma Open_while_not_null:
  "Open_while d cs directory p = Inr q \<Longrightarrow> p \<noteq> Null \<Longrightarrow> q \<noteq> Null"
  by (induction cs arbitrary: directory p) (auto split: option.splits sum.splits if_splits)

lemma Open_never_null: "Open fs path \<noteq> Inr Null"
  using Open_while_not_null [of "disk fs" "strtok path" _ Uninitialized Null]
  by (auto simp: Open_def split: sum.splits)

text \<open>
  No component that \<open>strtok\<close> yields contains the separator. In a root directory whose
  names contain no separator, \<open>Remove\<close> finds no path that contains one.
\<close>

lemma FindIndex_None_iff: "FindIndex t n = None \<longleftrightarrow> (\<forall>e \<in> set t. \<not> (inUse e \<and> name e = n))"
  by (induction t) auto

lemma Remove_path_with_separator:
  assumes "Directory_FetchFrom (disk fs) (directoryFile fs) = Inr (Some t)"
    and "\<forall>e \<in> set t. inUse e \<longrightarrow> CHR ''/'' \<notin> set (name e)"
    and "CHR ''/'' \<in> set path"
  shows "Remove fs path = (Inr False, fs)"
proof -
  have "FindIndex t path = None"
    using assms(2,3) by (auto simp: FindIndex_None_iff)
  then show ?thesis
    by (simp add: Remove_def assms(1) Find_def)
qed

lemma tokens_from_no_separator:
  "CHR ''/'' \<notin> set acc \<Longrightarrow> \<forall>c \<in> set (tokens_from acc path). CHR ''/'' \<notin> set c"
  by (induction acc path rule: tokens_from.induct) auto

lemma strtok_no_separator: "c \<in> set (strtok path) \<Longrightarrow> CHR ''/'' \<notin> set c"
  using tokens_from_no_separator [of "[]" path] by (simp add: strtok_def)

text \<open>
  When the clear bits do not cover the data sectors, \<open>Allocate\<close> returns \<open>False\<close> and
  changes neither bitmap nor disk. For a file within the direct span, \<open>Deallocate\<close>
  after a successful \<open>Allocate\<close> gives back the bitmap as it was.
\<close>

lemma Allocate_insufficient:
  "NumClear freeMap < divRoundUp fileSize SectorSize \<Longrightarrow>
   Allocate h freeMap d fileSize =
     (Inr (False, h\<lparr>numBytes := fileSize, numSectors := divRoundUp fileSize SectorSize\<rparr>, freeMap), d)"
  by (subst Allocate.simps) (simp add: Let_def)

lemma divRoundUp_SectorSize:
  "0 \<le> n \<Longrightarrow> divRoundUp n SectorSize = (n + 127) div 128"
proof -
  assume n: "0 \<le> n"
  have d: "c_div n SectorSize = n div 128"
    using n by (cases "n = 0") (simp_all add: c_div_def SectorSize_def)
  have m: "c_mod n SectorSize = n mod 128"
    unfolding c_mod_def d by (simp add: SectorSize_def minus_mult_div_eq_mod)
  let ?r = "n mod 128"
  have r: "0 \<le> ?r" "?r < 128" by simp_all
  have split: "(n + 127) div 128 = n div 128 + (?r + 127) div 128"
    by (simp add: div_add1_eq [of n 127 128])
  have "(?r + 127) div 128 = (if 0 < ?r then 1 else 0)"
  proof (cases "0 < ?r")
    case True
    have "?r + 127 = 128 * 1 + (?r - 1)" by simp
    moreover have "0 \<le> ?r - 1" "?r - 1 < 128" using True r by simp_all
    ultimately have "(?r + 127) div 128 = 1" by (rule int_div_pos_eq)
    with True show ?thesis by simp
  next
    case False
    with r have "?r = 0" by simp
    then show ?thesis by simp
  qed
  with split show ?thesis
    unfolding divRoundUp_def d m by simp
qed

lemma marked_clear:
  "s \<in> marked_sectors m \<Longrightarrow> marked_sectors (m[nat s := False]) = marked_sectors m - {s}"
  by (auto simp: marked_sectors_def nth_list_update split: if_splits)

lemma Deallocate_for_clears:
  assumes "i + n \<le> length (dataSectors h)"
    and "distinct (map (\<lambda>k. dataSectors h ! k) [i..<i + n])"
    and "set (map (\<lambda>k. dataSectors h ! k) [i..<i + n]) \<subseteq> marked_sectors m"
  shows "\<exists>m'. Deallocate_for i n h m = Inr m' \<and> length m' = length m \<and>
           marked_sectors m' = marked_sectors m - set (map (\<lambda>k. dataSectors h ! k) [i..<i + n])"
  using assms
proof (induction n arbitrary: i m)
  case 0
  then show ?case by simp
next
  case (Suc n)
  let ?s = "dataSectors h ! i"
  have up: "[i..<i + Suc n] = i # [Suc i..<Suc i + n]"
    by (simp add: upt_conv_Cons)
  from Suc.prems(2) have "distinct (?s # map (\<lambda>k. dataSectors h ! k) [Suc i..<Suc i + n])"
    by (simp only: up list.map)
  then have dist: "distinct (map (\<lambda>k. dataSectors h ! k) [Suc i..<Suc i + n])"
    and notin: "?s \<notin> set (map (\<lambda>k. dataSectors h ! k) [Suc i..<Suc i + n])"
    by (auto simp del: upt_Suc)
  from Suc.prems(3) have "set (?s # map (\<lambda>k. dataSectors h ! k) [Suc i..<Suc i + n]) \<subseteq> marked_sectors m"
    by (simp only: up list.map)
  then have sm: "?s \<in> marked_sectors m"
    and rest: "set (map (\<lambda>k. dataSectors h ! k) [Suc i..<Suc i + n]) \<subseteq> marked_sectors m"
    by (auto simp del: upt_Suc)
  let ?m1 = "m[nat ?s := False]"
  have mk1: "marked_sectors ?m1 = marked_sectors m - {?s}"
    using sm by (rule marked_clear)
  have rest1: "set (map (\<lambda>k. dataSectors h ! k) [Suc i..<Suc i + n]) \<subseteq> marked_sectors ?m1"
    using rest notin mk1 by blast
  have "\<exists>m'. Deallocate_for (Suc i) n h ?m1 = Inr m' \<and> length m' = length ?m1 \<and>
           marked_sectors m' = marked_sectors ?m1
             - set (map (\<lambda>k. dataSectors h ! k) [Suc i..<Suc i + n])"
    using Suc.prems(1) dist rest1 by (intro Suc.IH) simp_all
  then obtain m' where run: "Deallocate_for (Suc i) n h ?m1 = Inr m'"
    and len: "length m' = length m"
    and mk: "marked_sectors m' = marked_sectors ?m1
               - set (map (\<lambda>k. dataSectors h ! k) [Suc i..<Suc i + n])"
    by auto
  have get: "array_get (dataSectors h) (int i) = Inr ?s"
    using Suc.prems(1) by (simp add: array_get_def)
  have tst: "Test m ?s = Inr True" and clr: "Clear m ?s = Inr ?m1"
    using sm by (simp_all add: Test_def Clear_def marked_sectors_def)
  have "Deallocate_for i (Suc n) h m = Inr m'"
    by (simp add: get tst clr run)
  moreover have "marked_sectors m' = marked_sectors m
      - set (map (\<lambda>k. dataSectors h ! k) [i..<i + Suc n])"
    unfolding mk mk1 by (simp only: up list.map list.set) blast
  ultimately show ?case using len by blast
qed

lemma marked_sectors_inject:
  assumes "length a = length b" "marked_sectors a = marked_sectors b"
  shows "a = b"
proof (rule nth_equalityI)
  show "length a = length b" by (rule assms(1))
  fix i assume i: "i < length a"
  have "a ! i \<longleftrightarrow> int i \<in> marked_sectors a" using i by (simp add: marked_sectors_def)
  also have "\<dots> \<longleftrightarrow> int i \<in> marked_sectors b" by (simp only: assms(2))
  also have "\<dots> \<longleftrightarrow> b ! i" using i assms(1) by (simp add: marked_sectors_def)
  finally show "a ! i = b ! i" .
qed

lemma Deallocate_after_direct_Allocate:
  assumes size: "0 \<le> fileSize" "fileSize \<le> MaxFileSize"
    and len: "length (dataSectors h) = NumDirect"
    and al: "Allocate h bm d fileSize = (Inr (True, h', m'), d')"
  shows "Deallocate h' m' = Inr bm \<and> d' = d"
proof -
  let ?n = "nat (divRoundUp fileSize SectorSize)"
  let ?h1 = "h\<lparr>numBytes := fileSize, numSectors := divRoundUp fileSize SectorSize\<rparr>"
  have ru: "divRoundUp fileSize SectorSize = (fileSize + 127) div 128"
    using size(1) by (rule divRoundUp_SectorSize)
  have "fileSize \<le> 3840" using size(2) by (simp add: const_defs)
  then have n30: "divRoundUp fileSize SectorSize \<le> 30"
    and n0: "0 \<le> divRoundUp fileSize SectorSize"
    unfolding ru using size(1) by simp_all
  have enough: "\<not> NumClear bm < divRoundUp fileSize SectorSize"
    using al by (subst (asm) Allocate.simps) (auto simp: Let_def)
  have direct: "Allocate h bm d fileSize =
      (case Allocate_for 0 ?n ?h1 bm of
         Inl e \<Rightarrow> (Inl e, d)
       | Inr (h2, m2) \<Rightarrow> (Inr (True, h2, m2), d))"
    using size enough
    by (subst Allocate.simps) (simp add: Let_def, simp add: const_defs)
  have "\<exists>h' m'. Allocate_for 0 ?n ?h1 bm = Inr (h', m') \<and>
           numBytes h' = numBytes ?h1 \<and> numSectors h' = numSectors ?h1 \<and>
           length (dataSectors h') = length (dataSectors ?h1) \<and>
           take 0 (dataSectors h') = take 0 (dataSectors ?h1) \<and>
           length m' = length bm \<and> NumClear m' = NumClear bm - int ?n \<and>
           distinct (map (\<lambda>k. dataSectors h' ! k) [0..<0 + ?n]) \<and>
           set (map (\<lambda>k. dataSectors h' ! k) [0..<0 + ?n]) \<inter> marked_sectors bm = {} \<and>
           (\<forall>s \<in> set (map (\<lambda>k. dataSectors h' ! k) [0..<0 + ?n]). 0 \<le> s \<and> s < int (length bm)) \<and>
           marked_sectors m' = marked_sectors bm \<union> set (map (\<lambda>k. dataSectors h' ! k) [0..<0 + ?n])"
    using enough n0 n30 len by (intro Allocate_for_props) (simp_all add: NumDirect_def)
  then obtain h2 m2 where
    af: "Allocate_for 0 ?n ?h1 bm = Inr (h2, m2)"
    and ns: "numSectors h2 = divRoundUp fileSize SectorSize"
    and ln: "length (dataSectors h2) = NumDirect"
    and lm: "length m2 = length bm"
    and ds: "distinct (map (\<lambda>k. dataSectors h2 ! k) [0..<0 + ?n])"
    and dj: "set (map (\<lambda>k. dataSectors h2 ! k) [0..<0 + ?n]) \<inter> marked_sectors bm = {}"
    and mm: "marked_sectors m2 = marked_sectors bm \<union> set (map (\<lambda>k. dataSectors h2 ! k) [0..<0 + ?n])"
    using len by auto
  from al direct af have eq: "h' = h2" "m' = m2" "d' = d" by simp_all
  have "\<exists>m''. Deallocate_for 0 ?n h2 m2 = Inr m'' \<and> length m'' = length m2 \<and>
           marked_sectors m'' = marked_sectors m2 - set (map (\<lambda>k. dataSectors h2 ! k) [0..<0 + ?n])"
    using ds mm ln n30 by (intro Deallocate_for_clears) (simp_all add: NumDirect_def)
  then obtain m'' where run: "Deallocate_for 0 ?n h2 m2 = Inr m''"
    and l2: "length m'' = length m2"
    and mk: "marked_sectors m'' = marked_sectors m2 - set (map (\<lambda>k. dataSectors h2 ! k) [0..<0 + ?n])"
    by blast
  have "marked_sectors m'' = marked_sectors bm"
    using mk mm dj by blast
  then have "m'' = bm"
    using l2 lm by (intro marked_sectors_inject) simp_all
  then show ?thesis
    using run by (simp add: Deallocate_def eq ns)
qed

end
